theory Spec2Isabelle
  imports Complex_Main
begin

section \<open>JavaScript numbers, arrays and exceptions\<close>

text \<open>
  The engine of \<^verbatim>\<open>src/ScalpEngine.js\<close> computes on JavaScript numbers. A number that
  is present is modelled as an exact \<^typ>\<open>real\<close> (the rounding of IEEE doubles and the
  infinities are not modelled); \<open>None\<close> stands for \<^verbatim>\<open>undefined\<close> and for
  \<^verbatim>\<open>NaN\<close>, which behave alike in everything the engine does with them: both are
  falsy, every comparison with them is false, and arithmetic on them gives
  \<^verbatim>\<open>NaN\<close> again.
\<close>

type_synonym jsnum = "real option"

type_synonym symbol = string

datatype js_error = TypeError | IndicatorError

definition truthy :: "jsnum \<Rightarrow> bool" where
  "truthy a = (case a of None \<Rightarrow> False | Some x \<Rightarrow> x \<noteq> 0)"

text \<open>\<^verbatim>\<open>a || b\<close> on numbers.\<close>

definition js_or :: "jsnum \<Rightarrow> jsnum \<Rightarrow> jsnum" where
  "js_or a b = (if truthy a then a else b)"

definition js_lt :: "jsnum \<Rightarrow> jsnum \<Rightarrow> bool" where
  "js_lt a b = (case a of None \<Rightarrow> False | Some x \<Rightarrow> (case b of None \<Rightarrow> False | Some y \<Rightarrow> x < y))"

definition js_le :: "jsnum \<Rightarrow> jsnum \<Rightarrow> bool" where
  "js_le a b = (case a of None \<Rightarrow> False | Some x \<Rightarrow> (case b of None \<Rightarrow> False | Some y \<Rightarrow> x \<le> y))"

definition js_gt :: "jsnum \<Rightarrow> jsnum \<Rightarrow> bool" where
  "js_gt a b = js_lt b a"

definition js_ge :: "jsnum \<Rightarrow> jsnum \<Rightarrow> bool" where
  "js_ge a b = js_le b a"

definition js_add :: "jsnum \<Rightarrow> jsnum \<Rightarrow> jsnum" where
  "js_add a b = (case a of None \<Rightarrow> None | Some x \<Rightarrow> map_option (\<lambda>y. x + y) b)"

definition js_sub :: "jsnum \<Rightarrow> jsnum \<Rightarrow> jsnum" where
  "js_sub a b = (case a of None \<Rightarrow> None | Some x \<Rightarrow> map_option (\<lambda>y. x - y) b)"

definition js_mul :: "jsnum \<Rightarrow> jsnum \<Rightarrow> jsnum" where
  "js_mul a b = (case a of None \<Rightarrow> None | Some x \<Rightarrow> map_option (\<lambda>y. x * y) b)"

definition js_abs :: "jsnum \<Rightarrow> jsnum" where
  "js_abs a = map_option abs a"

text \<open>\<^verbatim>\<open>xs[i]\<close>: an index outside the array reads \<^verbatim>\<open>undefined\<close>.\<close>

definition js_at :: "'a list \<Rightarrow> int \<Rightarrow> 'a option" where
  "js_at xs i = (if 0 \<le> i \<and> i < int (length xs) then Some (xs ! nat i) else None)"

definition js_num_at :: "jsnum list \<Rightarrow> int \<Rightarrow> jsnum" where
  "js_num_at xs i = (case js_at xs i of None \<Rightarrow> None | Some v \<Rightarrow> v)"

text \<open>\<^verbatim>\<open>xs.slice(b, e)\<close> and \<^verbatim>\<open>xs.slice(b)\<close>, with negative indices counted from the end.\<close>

definition rel_index :: "nat \<Rightarrow> int \<Rightarrow> nat" where
  "rel_index len k = (if k < 0 then nat (max (int len + k) 0) else min (nat k) len)"

definition js_slice :: "'a list \<Rightarrow> int \<Rightarrow> int \<Rightarrow> 'a list" where
  "js_slice xs b e =
     (let s = rel_index (length xs) b; f = rel_index (length xs) e
      in take (f - s) (drop s xs))"

definition js_slice_from :: "'a list \<Rightarrow> int \<Rightarrow> 'a list" where
  "js_slice_from xs b = drop (rel_index (length xs) b) xs"

text \<open>\<^verbatim>\<open>Math.max(...xs)\<close> on a non-empty argument list: \<^verbatim>\<open>NaN\<close> as soon as one
  argument is not a number.\<close>

fun js_max_list :: "jsnum list \<Rightarrow> jsnum" where
  "js_max_list [] = None"
| "js_max_list [x] = x"
| "js_max_list (x # y # ys) =
     (case x of None \<Rightarrow> None
      | Some a \<Rightarrow> (case js_max_list (y # ys) of None \<Rightarrow> None | Some b \<Rightarrow> Some (max a b)))"

text \<open>
  The per-symbol tables of the engine are plain objects: a key that was never written
  still reads a member of \<^verbatim>\<open>Object.prototype\<close> when the symbol is the name of
  one. \<open>objectPrototype\<close> lists them: a method with its \<^verbatim>\<open>length\<close>, or the
  prototype object itself under \<^verbatim>\<open>__proto__\<close>, which has no \<^verbatim>\<open>length\<close>. What an
  assignment under the key \<^verbatim>\<open>__proto__\<close> does to the reads of other keys is not
  modelled.
\<close>

definition objectPrototype :: "string \<Rightarrow> nat option option" where
  "objectPrototype k =
     (if k = ''__proto__'' then Some None
      else if k \<in> {''__defineGetter__'', ''__defineSetter__''} then Some (Some 2)
      else if k \<in> {''constructor'', ''hasOwnProperty'', ''__lookupGetter__'',
                     ''__lookupSetter__'', ''isPrototypeOf'', ''propertyIsEnumerable''}
           then Some (Some 1)
      else if k \<in> {''toString'', ''valueOf'', ''toLocaleString''} then Some (Some 0)
      else None)"

datatype 'a js_prop = Absent | Own 'a | Inherited "nat option"

definition js_get :: "(string \<rightharpoonup> 'a) \<Rightarrow> string \<Rightarrow> 'a js_prop" where
  "js_get m k =
     (case m k of
        Some v \<Rightarrow> Own v
      | None \<Rightarrow> (case objectPrototype k of None \<Rightarrow> Absent | Some len \<Rightarrow> Inherited len))"

text \<open>\<^verbatim>\<open>xs.map(c => c.close || c.c)\<close> and its two siblings read a field of every entry:
  an entry that is \<^verbatim>\<open>null\<close> or \<^verbatim>\<open>undefined\<close> (\<open>None\<close>) throws.\<close>

definition readEntries :: "'a option list \<Rightarrow> js_error + 'a list" where
  "readEntries xs = (case those xs of None \<Rightarrow> Inl TypeError | Some ks \<Rightarrow> Inr ks)"

section \<open>Data model\<close>

text \<open>
  A candle object carries its prices under the long names (\<^verbatim>\<open>high\<close>, \<^verbatim>\<open>low\<close>,
  \<^verbatim>\<open>close\<close>) or the short ones (\<^verbatim>\<open>h\<close>, \<^verbatim>\<open>l\<close>, \<^verbatim>\<open>c\<close>); the engine reads
  \<^verbatim>\<open>c.high || c.h\<close> and so on. The fields the engine never reads are left out.
\<close>

record candle =
  c_high :: jsnum
  c_h :: jsnum
  c_low :: jsnum
  c_l :: jsnum
  c_close :: jsnum
  c_c :: jsnum

definition highOf :: "candle \<Rightarrow> jsnum" where
  "highOf k = js_or (c_high k) (c_h k)"

definition lowOf :: "candle \<Rightarrow> jsnum" where
  "lowOf k = js_or (c_low k) (c_l k)"

definition closeOf :: "candle \<Rightarrow> jsnum" where
  "closeOf k = js_or (c_close k) (c_c k)"

datatype trend = BULLISH | BEARISH | NEUTRAL

datatype result = WIN | LOSS | EXPIRED

text \<open>The rationale strings of \<^verbatim>\<open>_buildReasons\<close>, as data.\<close>

datatype reason =
    PerfectTap
  | CleanPullback
  | RsiOverbought real
  | FreshStochCross
  | MacdAccelerating

text \<open>
  The object returned by \<^verbatim>\<open>getSellSignal\<close> and the trade object of
  \<^verbatim>\<open>generateSignal\<close>. Their constant fields (\<^verbatim>\<open>action: 'SELL'\<close>, and
  \<^verbatim>\<open>lotSize: null\<close> of the trade) are left out.
\<close>

record sell_signal =
  s_confidence :: nat
  s_price :: jsnum
  s_sl :: jsnum
  s_tp :: jsnum
  s_risk :: jsnum
  s_atr :: jsnum
  s_pullbackHigh :: jsnum
  s_ema21 :: jsnum
  s_rsi :: jsnum
  s_stochK :: jsnum
  s_macdHist :: jsnum
  s_reasons :: "reason list"

record trade =
  t_symbol :: symbol
  t_entryPrice :: real
  t_sl :: jsnum
  t_tp :: jsnum
  t_risk :: jsnum
  t_rr :: real
  t_confidence :: nat
  t_atr :: jsnum
  t_openTime :: int
  t_reasons :: "reason list"

text \<open>The object \<^verbatim>\<open>{ ...trade, result, rPnL, closePrice }\<close>.\<close>

record outcome =
  o_trade :: trade
  o_result :: result
  o_rPnL :: real
  o_closePrice :: jsnum

record symbol_stats =
  sym_wins :: nat
  sym_losses :: nat
  sym_totalR :: real

record stats =
  wins :: nat
  losses :: nat
  expired :: nat
  totalR :: real
  bySymbol :: "symbol \<rightharpoonup> symbol_stats"

text \<open>
  The fields of the class. An entry of the 5-minute and 1-hour arrays may be
  \<^verbatim>\<open>null\<close> (\<open>None\<close>); the 1-minute arrays are taken to hold candle objects. In \<open>openTrade\<close> the value \<open>None\<close> stands for both a missing
  key and \<^verbatim>\<open>null\<close>: the code only ever tests the entry for truthiness.
\<close>

record engine =
  candles1m :: "symbol \<rightharpoonup> candle list"
  candles5m :: "symbol \<rightharpoonup> candle option list"
  candles1h :: "symbol \<rightharpoonup> candle option list"
  openTrade :: "symbol \<rightharpoonup> trade"
  lastSignalTs :: "symbol \<rightharpoonup> int"
  stats :: stats

text \<open>\<^verbatim>\<open>SCALP_CONFIG\<close>: assigned to \<^verbatim>\<open>this.config\<close> by the constructor and never written.\<close>

definition RR :: real where "RR = 18 / 10"
definition ATR_MUL :: real where "ATR_MUL = 1"
definition MAX_PB_ATR :: real where "MAX_PB_ATR = 4 / 10"
definition MIN_CONF :: nat where "MIN_CONF = 65"
definition MAX_HOLD :: real where "MAX_HOLD = 20"
definition COOLDOWN :: int where "COOLDOWN = 5"
definition HOUR_START :: int where "HOUR_START = 12"
definition HOUR_END :: int where "HOUR_END = 13"

definition new_engine :: engine where
  "new_engine =
     \<lparr>candles1m = Map.empty, candles5m = Map.empty, candles1h = Map.empty,
      openTrade = Map.empty, lastSignalTs = Map.empty,
      stats = \<lparr>wins = 0, losses = 0, expired = 0, totalR = 0, bySymbol = Map.empty\<rparr>\<rparr>"

section \<open>Feeding candles\<close>

text \<open>The three loaders keep the most recent candles of the array they are given; what
  they print on the console is not modelled.\<close>

definition load1mCandles :: "engine \<Rightarrow> symbol \<Rightarrow> candle list \<Rightarrow> engine" where
  "load1mCandles st symb candles =
     st\<lparr>candles1m := (candles1m st)(symb \<mapsto> js_slice_from candles (- 100)),
        openTrade := (openTrade st)(symb := None),
        lastSignalTs := (lastSignalTs st)(symb \<mapsto> 0),
        stats := (if bySymbol (stats st) symb = None
                  then (stats st)\<lparr>bySymbol := (bySymbol (stats st))
                         (symb \<mapsto> \<lparr>sym_wins = 0, sym_losses = 0, sym_totalR = 0\<rparr>)\<rparr>
                  else stats st)\<rparr>"

definition load5mCandles :: "engine \<Rightarrow> symbol \<Rightarrow> candle option list \<Rightarrow> engine" where
  "load5mCandles st symb candles =
     st\<lparr>candles5m := (candles5m st)(symb \<mapsto> js_slice_from candles (- 80))\<rparr>"

definition load1hCandles :: "engine \<Rightarrow> symbol \<Rightarrow> candle option list \<Rightarrow> engine" where
  "load1hCandles st symb candles =
     st\<lparr>candles1h := (candles1h st)(symb \<mapsto> js_slice_from candles (- 100))\<rparr>"

text \<open>\<^verbatim>\<open>push\<close> appends, \<^verbatim>\<open>shift\<close> drops the oldest candle.\<close>

definition push_bounded :: "nat \<Rightarrow> 'a list option \<Rightarrow> 'a \<Rightarrow> 'a list" where
  "push_bounded cap buf k =
     (let xs = (case buf of None \<Rightarrow> [] | Some ys \<Rightarrow> ys) @ [k]
      in if length xs > cap then tl xs else xs)"

definition push1mCandle :: "engine \<Rightarrow> symbol \<Rightarrow> candle \<Rightarrow> engine" where
  "push1mCandle st symb k =
     st\<lparr>candles1m := (candles1m st)(symb \<mapsto> push_bounded 100 (candles1m st symb) k)\<rparr>"

definition push5mCandle :: "engine \<Rightarrow> symbol \<Rightarrow> candle option \<Rightarrow> engine" where
  "push5mCandle st symb k =
     st\<lparr>candles5m := (candles5m st)(symb \<mapsto> push_bounded 80 (candles5m st symb) k)\<rparr>"

section \<open>Session gate\<close>

text \<open>
  Timestamps are integer milliseconds since the epoch. A \<^verbatim>\<open>Date\<close> outside
  \<open>\<plusminus>8.64\<cdot>10\<^sup>1\<^sup>5\<close> ms is invalid: its hour and day are \<^verbatim>\<open>NaN\<close> and every test of
  \<^verbatim>\<open>isScalpSession\<close> on them is false. 1970-01-01 was a Thursday (day 4).
\<close>

definition validDate :: "int \<Rightarrow> bool" where
  "validDate ts = (\<bar>ts\<bar> \<le> 8640000000000000)"

definition getUTCHours :: "int \<Rightarrow> int" where
  "getUTCHours ts = (ts div 3600000) mod 24"

definition getUTCDay :: "int \<Rightarrow> int" where
  "getUTCDay ts = (ts div 86400000 + 4) mod 7"

definition isScalpSession :: "int \<Rightarrow> bool" where
  "isScalpSession ts =
     (if \<not> validDate ts then False
      else let hour = getUTCHours ts; day = getUTCDay ts
           in if day = 0 \<or> day = 6 then False
              else if day = 1 \<and> hour < 10 then False
              else if day = 5 \<and> hour \<ge> HOUR_END then False
              else hour \<ge> HOUR_START \<and> hour < HOUR_END)"

section \<open>Trade resolution and statistics\<close>

text \<open>
  \<^verbatim>\<open>_recordResult\<close>. The global counters are written first; the per-symbol record
  is then read with \<^verbatim>\<open>this.stats.bySymbol[symbol].wins++\<close>, which throws a
  \<^verbatim>\<open>TypeError\<close> when the symbol has no record. The state the function leaves behind
  is returned in both cases.
\<close>

definition recordResult ::
  "engine \<Rightarrow> symbol \<Rightarrow> result \<Rightarrow> real \<Rightarrow> engine \<times> (js_error + unit)" where
  "recordResult st symb res rPnL =
     (case res of
        WIN \<Rightarrow>
          (let g = (stats st)\<lparr>wins := wins (stats st) + 1, totalR := totalR (stats st) + rPnL\<rparr>
           in case bySymbol g symb of
                None \<Rightarrow> (st\<lparr>stats := g\<rparr>, Inl TypeError)
              | Some b \<Rightarrow>
                  (st\<lparr>stats := g\<lparr>bySymbol := (bySymbol g)
                       (symb \<mapsto> b\<lparr>sym_wins := sym_wins b + 1, sym_totalR := sym_totalR b + rPnL\<rparr>)\<rparr>\<rparr>,
                   Inr ()))
      | LOSS \<Rightarrow>
          (let g = (stats st)\<lparr>losses := losses (stats st) + 1, totalR := totalR (stats st) + rPnL\<rparr>
           in case bySymbol g symb of
                None \<Rightarrow> (st\<lparr>stats := g\<rparr>, Inl TypeError)
              | Some b \<Rightarrow>
                  (st\<lparr>stats := g\<lparr>bySymbol := (bySymbol g)
                       (symb \<mapsto> b\<lparr>sym_losses := sym_losses b + 1, sym_totalR := sym_totalR b + rPnL\<rparr>)\<rparr>\<rparr>,
                   Inr ()))
      | EXPIRED \<Rightarrow>
          (st\<lparr>stats := (stats st)\<lparr>expired := expired (stats st) + 1,
                                   totalR := totalR (stats st) + rPnL\<rparr>\<rparr>,
           Inr ()))"

text \<open>
  \<^verbatim>\<open>resolveOpenTrade(symbol, newCandle)\<close>; \<open>now\<close> is the value of \<^verbatim>\<open>Date.now()\<close>.
  The result is the state left behind and either the exception thrown or the value
  returned (\<open>None\<close> for \<^verbatim>\<open>null\<close>).
\<close>

definition closeTrade ::
  "engine \<Rightarrow> symbol \<Rightarrow> trade \<Rightarrow> result \<Rightarrow> real \<Rightarrow> jsnum \<Rightarrow> engine \<times> (js_error + outcome option)" where
  "closeTrade st symb tr res rPnL px =
     (let out = \<lparr>o_trade = tr, o_result = res, o_rPnL = rPnL, o_closePrice = px\<rparr>;
          st1 = st\<lparr>openTrade := (openTrade st)(symb := None)\<rparr>
      in case recordResult st1 symb res rPnL of
           (st2, Inl e) \<Rightarrow> (st2, Inl e)
         | (st2, Inr u) \<Rightarrow> (st2, Inr (Some out)))"

definition resolveOpenTrade ::
  "engine \<Rightarrow> symbol \<Rightarrow> candle \<Rightarrow> int \<Rightarrow> engine \<times> (js_error + outcome option)" where
  "resolveOpenTrade st symb newCandle now =
     (case openTrade st symb of
        None \<Rightarrow> (st, Inr None)
      | Some tr \<Rightarrow>
          if js_ge (highOf newCandle) (t_sl tr) then
            closeTrade st symb tr LOSS (- 1) (t_sl tr)
          else if js_le (lowOf newCandle) (t_tp tr) then
            closeTrade st symb tr WIN RR (t_tp tr)
          else if real_of_int (now - t_openTime tr) / 60000 \<ge> MAX_HOLD then
            closeTrade st symb tr EXPIRED (- (15 / 100)) (closeOf newCandle)
          else (st, Inr None))"

section \<open>The indicator library\<close>

text \<open>
  The indicators come from the package \<^verbatim>\<open>technicalindicators\<close>, which is not part of
  this repository: they are a parameter of the model. Each \<^verbatim>\<open>calculate\<close> either
  throws or returns an array; of the objects in the arrays of \<^verbatim>\<open>Stochastic\<close>,
  \<^verbatim>\<open>MACD\<close> and \<^verbatim>\<open>ADX\<close> only the fields the engine reads are kept. The arguments
  are the periods, in the order of the source, then the series.
\<close>

record stoch_out =
  st_k :: jsnum
  st_d :: jsnum

record macd_out =
  m_histogram :: jsnum

record adx_out =
  a_adx :: jsnum

record indicators =
  EMA :: "nat \<Rightarrow> jsnum list \<Rightarrow> js_error + jsnum list"
  RSI :: "nat \<Rightarrow> jsnum list \<Rightarrow> js_error + jsnum list"
  ATR :: "nat \<Rightarrow> jsnum list \<Rightarrow> jsnum list \<Rightarrow> jsnum list \<Rightarrow> js_error + jsnum list"
  Stochastic :: "nat \<Rightarrow> nat \<Rightarrow> jsnum list \<Rightarrow> jsnum list \<Rightarrow> jsnum list \<Rightarrow> js_error + stoch_out list"
  ADX :: "nat \<Rightarrow> jsnum list \<Rightarrow> jsnum list \<Rightarrow> jsnum list \<Rightarrow> js_error + adx_out list"
  MACD :: "nat \<Rightarrow> nat \<Rightarrow> nat \<Rightarrow> jsnum list \<Rightarrow> js_error + macd_out list"
  roundD :: "real \<Rightarrow> real"

text \<open>
  \<open>roundD\<close> is the rounding of the host's double arithmetic, a parameter as well: the
  stop, the risk and the target of a setup are computed with it, so that nothing said
  about them rests on exact arithmetic. Overflow to an infinity is not modelled.
\<close>

definition addD :: "indicators \<Rightarrow> jsnum \<Rightarrow> jsnum \<Rightarrow> jsnum" where
  "addD lib a b = map_option (roundD lib) (js_add a b)"

definition subD :: "indicators \<Rightarrow> jsnum \<Rightarrow> jsnum \<Rightarrow> jsnum" where
  "subD lib a b = map_option (roundD lib) (js_sub a b)"

definition mulD :: "indicators \<Rightarrow> jsnum \<Rightarrow> jsnum \<Rightarrow> jsnum" where
  "mulD lib a b = map_option (roundD lib) (js_mul a b)"

text \<open>\<^verbatim>\<open>xs[xs.length - 1]\<close> and \<^verbatim>\<open>xs[xs.length - 2]\<close>.\<close>

definition lastNum :: "jsnum list \<Rightarrow> jsnum" where
  "lastNum xs = js_num_at xs (int (length xs) - 1)"

definition prevNum :: "jsnum list \<Rightarrow> jsnum" where
  "prevNum xs = js_num_at xs (int (length xs) - 2)"

section \<open>Trend filters\<close>

text \<open>
  Inside a \<^verbatim>\<open>try\<close> block a value of type \<open>js_error + 'a\<close> is either an exception thrown
  (\<open>Inl\<close>) or a result; \<open>bind_try\<close> runs the rest of the block on a result and passes an
  exception on to the \<^verbatim>\<open>catch\<close>.
\<close>

definition bind_try :: "js_error + 'a \<Rightarrow> ('a \<Rightarrow> js_error + 'b) \<Rightarrow> js_error + 'b" where
  "bind_try m f = (case m of Inl e \<Rightarrow> Inl e | Inr x \<Rightarrow> f x)"

text \<open>\<^verbatim>\<open>adx[adx.length - 1].adx\<close>: reading a field of \<^verbatim>\<open>undefined\<close> throws.\<close>

definition lastAdx :: "adx_out list \<Rightarrow> js_error + jsnum" where
  "lastAdx adx =
     (case js_at adx (int (length adx) - 1) of None \<Rightarrow> Inl TypeError | Some a \<Rightarrow> Inr (a_adx a))"

text \<open>The body of the \<^verbatim>\<open>try\<close> block of \<^verbatim>\<open>get1hMacro\<close>.\<close>

definition get1hMacro_try ::
  "indicators \<Rightarrow> jsnum list \<Rightarrow> jsnum list \<Rightarrow> jsnum list \<Rightarrow> js_error + trend" where
  "get1hMacro_try lib closes highs lows =
     bind_try (EMA lib 21 closes) (\<lambda>ema21.
     bind_try (EMA lib 50 closes) (\<lambda>ema50.
     bind_try (ADX lib 14 highs lows closes) (\<lambda>adx.
       if ema21 = [] \<or> ema50 = [] \<or> adx = [] then Inr NEUTRAL
       else
         let e21 = lastNum ema21; e50 = lastNum ema50; price = lastNum closes
         in bind_try (lastAdx adx) (\<lambda>adxVal.
              if js_lt adxVal (Some 20) then Inr NEUTRAL
              else if js_gt e21 e50 \<and> js_gt price e21 then Inr BULLISH
              else if js_lt e21 e50 \<and> js_lt price e21 then Inr BEARISH
              else Inr NEUTRAL))))"

text \<open>
  \<^verbatim>\<open>get1hMacro\<close>. The guard \<^verbatim>\<open>!c1h || c1h.length < 55\<close> and the three
  \<^verbatim>\<open>map\<close> calls stand before the \<^verbatim>\<open>try\<close> block: an inherited member without a
  \<^verbatim>\<open>length\<close> below 55 passes the guard and has no \<^verbatim>\<open>map\<close>, and a \<^verbatim>\<open>null\<close>
  entry has no fields, so both throw out of the function. \<open>Inl\<close> is that exception.
\<close>

definition get1hMacro :: "indicators \<Rightarrow> engine \<Rightarrow> symbol \<Rightarrow> js_error + trend" where
  "get1hMacro lib st symb =
     (case js_get (candles1h st) symb of
        Absent \<Rightarrow> Inr NEUTRAL
      | Inherited len \<Rightarrow>
          (case len of
             None \<Rightarrow> Inl TypeError
           | Some n \<Rightarrow> if n < 55 then Inr NEUTRAL else Inl TypeError)
      | Own c1h \<Rightarrow>
          if length c1h < 55 then Inr NEUTRAL
          else
            bind_try (readEntries c1h) (\<lambda>ks.
              Inr (case get1hMacro_try lib (map closeOf ks) (map highOf ks) (map lowOf ks) of
                     Inl e \<Rightarrow> NEUTRAL
                   | Inr t \<Rightarrow> t)))"

definition get5mTrend_try ::
  "indicators \<Rightarrow> jsnum list \<Rightarrow> jsnum list \<Rightarrow> jsnum list \<Rightarrow> js_error + trend" where
  "get5mTrend_try lib closes highs lows =
     bind_try (EMA lib 9 closes) (\<lambda>ema9.
     bind_try (EMA lib 21 closes) (\<lambda>ema21.
     bind_try (EMA lib 50 closes) (\<lambda>ema50.
     bind_try (ADX lib 14 highs lows closes) (\<lambda>adx.
       if ema9 = [] \<or> ema21 = [] \<or> ema50 = [] \<or> adx = [] then Inr NEUTRAL
       else
         let e9 = lastNum ema9; e21 = lastNum ema21; e50 = lastNum ema50; p = lastNum closes
         in bind_try (lastAdx adx) (\<lambda>adxVal.
              if js_lt e9 e21 \<and> js_lt e21 e50 \<and> js_lt p e9 \<and> js_ge adxVal (Some 25)
              then Inr BEARISH
              else Inr NEUTRAL)))))"

definition get5mTrend :: "indicators \<Rightarrow> engine \<Rightarrow> symbol \<Rightarrow> js_error + trend" where
  "get5mTrend lib st symb =
     (case js_get (candles5m st) symb of
        Absent \<Rightarrow> Inr NEUTRAL
      | Inherited len \<Rightarrow>
          (case len of
             None \<Rightarrow> Inl TypeError
           | Some n \<Rightarrow> if n < 55 then Inr NEUTRAL else Inl TypeError)
      | Own c5 \<Rightarrow>
          if length c5 < 55 then Inr NEUTRAL
          else
            bind_try (readEntries c5) (\<lambda>ks.
              Inr (case get5mTrend_try lib (map closeOf ks) (map highOf ks) (map lowOf ks) of
                     Inl e \<Rightarrow> NEUTRAL
                   | Inr t \<Rightarrow> t)))"

section \<open>The 1-minute sell signal\<close>

text \<open>
  The indicator values \<^verbatim>\<open>getSellSignal\<close> reads off the ends of the arrays, in the
  order of the source.
\<close>

record snapshot =
  price :: jsnum
  prevPrice :: jsnum
  e8 :: jsnum
  e8Prev :: jsnum
  e21 :: jsnum
  e21Prev :: jsnum
  rsiVal :: jsnum
  rsiPrev :: jsnum
  atrVal :: jsnum
  stochCur :: "stoch_out option"
  stochPrev :: "stoch_out option"
  macdCur :: "macd_out option"
  macdPrev :: "macd_out option"

definition takeSnapshot ::
  "jsnum list \<Rightarrow> jsnum list \<Rightarrow> jsnum list \<Rightarrow> jsnum list \<Rightarrow> jsnum list \<Rightarrow>
   stoch_out list \<Rightarrow> macd_out list \<Rightarrow> snapshot" where
  "takeSnapshot closes ema8 ema21 rsi atr stoch macd =
     \<lparr>price = lastNum closes, prevPrice = prevNum closes,
      e8 = lastNum ema8, e8Prev = prevNum ema8,
      e21 = lastNum ema21, e21Prev = prevNum ema21,
      rsiVal = lastNum rsi, rsiPrev = prevNum rsi,
      atrVal = lastNum atr,
      stochCur = js_at stoch (int (length stoch) - 1),
      stochPrev = js_at stoch (int (length stoch) - 2),
      macdCur = js_at macd (int (length macd) - 1),
      macdPrev = js_at macd (int (length macd) - 2)\<rparr>"

text \<open>\<^verbatim>\<open>atrVal * f\<close> for a constant \<open>f\<close>.\<close>

definition atrTimes :: "snapshot \<Rightarrow> real \<Rightarrow> jsnum" where
  "atrTimes sn f = js_mul (atrVal sn) (Some f)"

text \<open>
  \<^verbatim>\<open>Math.max(...lookback.map(c => c.high || c.h))\<close> over \<^verbatim>\<open>c1.slice(-8, -1)\<close>. The
  series has at least 30 candles where this is evaluated, so the look-back has 7 bars
  and the empty maximum (\<open>-\<infinity>\<close> in JavaScript) does not arise.
\<close>

definition pullbackHighOf :: "candle list \<Rightarrow> jsnum" where
  "pullbackHighOf c1 = js_max_list (map highOf (js_slice c1 (- 8) (- 1)))"

text \<open>The gates between the pull-back check and the confidence score; \<open>True\<close> means
  that the source returns \<^verbatim>\<open>null\<close>.\<close>

definition pullbackRejects :: "snapshot \<Rightarrow> jsnum \<Rightarrow> bool" where
  "pullbackRejects sn pullbackHigh =
     (let distToEMA = js_abs (js_sub pullbackHigh (e21 sn))
      in js_gt distToEMA (atrTimes sn MAX_PB_ATR)
         \<or> js_gt pullbackHigh (js_add (e21 sn) (atrTimes sn 1)))"

definition momentumRejects :: "snapshot \<Rightarrow> bool" where
  "momentumRejects sn =
     (js_ge (price sn) (e8 sn)
      \<or> js_ge (price sn) (prevPrice sn)
      \<or> js_lt (rsiVal sn) (Some 35)
      \<or> js_ge (rsiVal sn) (rsiPrev sn)
      \<or> js_ge (e21 sn) (e21Prev sn)
      \<or> js_ge (e8 sn) (e8Prev sn))"

definition stochRejects :: "stoch_out \<Rightarrow> stoch_out \<Rightarrow> bool" where
  "stochRejects sc sp =
     (js_lt (st_k sc) (Some 25)
      \<or> (js_ge (st_k sc) (st_d sc) \<and> js_ge (st_k sp) (st_d sp)))"

definition macdRejects :: "macd_out \<Rightarrow> macd_out option \<Rightarrow> bool" where
  "macdRejects mc mp =
     (js_gt (m_histogram mc) (Some 0)
      \<and> (case mp of None \<Rightarrow> True | Some m \<Rightarrow> js_ge (m_histogram mc) (m_histogram m)))"

text \<open>\<^verbatim>\<open>macdCur.histogram < 0 && macdPrev && macdCur.histogram < macdPrev.histogram\<close>.\<close>

definition macdAccelerating :: "macd_out \<Rightarrow> macd_out option \<Rightarrow> bool" where
  "macdAccelerating mc mp =
     (js_lt (m_histogram mc) (Some 0)
      \<and> (case mp of None \<Rightarrow> False | Some m \<Rightarrow> js_lt (m_histogram mc) (m_histogram m)))"

text \<open>The confidence score, before the cap at 95.\<close>

definition confidenceScore ::
  "snapshot \<Rightarrow> jsnum \<Rightarrow> stoch_out \<Rightarrow> stoch_out \<Rightarrow> macd_out \<Rightarrow> macd_out option \<Rightarrow> nat" where
  "confidenceScore sn distToEMA sc sp mc mp =
     50
     + (if js_lt distToEMA (atrTimes sn (15 / 100)) then 20
        else if js_lt distToEMA (atrTimes sn (3 / 10)) then 12
        else if js_lt distToEMA (atrTimes sn (4 / 10)) then 5 else 0)
     + (if js_gt (rsiVal sn) (Some 60) \<and> js_lt (rsiVal sn) (rsiPrev sn) then 12
        else if js_gt (rsiVal sn) (Some 50) then 6 else 0)
     + (if js_lt (st_k sc) (st_d sc) \<and> js_ge (st_k sp) (st_d sp) then 12
        else if js_lt (st_k sc) (st_d sc) then 5 else 0)
     + (if js_gt (st_k sc) (Some 65) \<and> js_lt (st_k sc) (st_d sc) then 5 else 0)
     + (if js_lt (m_histogram mc) (Some 0) then 8 else 0)
     + (if macdAccelerating mc mp then 6 else 0)
     + (if js_lt (e21 sn) (e21Prev sn) then 5 else 0)
     + (if js_lt (e8 sn) (e8Prev sn) then 4 else 0)"

text \<open>\<^verbatim>\<open>_buildReasons\<close>; \<open>RsiOverbought x\<close> is the text built from \<^verbatim>\<open>rsi.toFixed(0)\<close>.\<close>

definition buildReasons ::
  "nat \<Rightarrow> jsnum \<Rightarrow> snapshot \<Rightarrow> stoch_out \<Rightarrow> stoch_out \<Rightarrow> macd_out \<Rightarrow> macd_out option \<Rightarrow> reason list" where
  "buildReasons conf distToEMA sn sc sp mc mp =
     (if js_lt distToEMA (atrTimes sn (15 / 100)) then [PerfectTap]
      else if js_lt distToEMA (atrTimes sn (3 / 10)) then [CleanPullback] else [])
     @ (case rsiVal sn of None \<Rightarrow> [] | Some x \<Rightarrow> if x > 60 then [RsiOverbought x] else [])
     @ (if js_lt (st_k sc) (st_d sc) \<and> js_ge (st_k sp) (st_d sp) then [FreshStochCross] else [])
     @ (if macdAccelerating mc mp then [MacdAccelerating] else [])"

text \<open>From the confidence score to the returned object: the cap, the minimum
  confidence, stop loss, risk and take profit. The sums, differences and products are
  rounded by the host; the literal \<^verbatim>\<open>1.8\<close> of the configuration is the double
  nearest to it, while \<^verbatim>\<open>1.0\<close> and \<^verbatim>\<open>3\<close> are doubles themselves.\<close>

definition priceLevels ::
  "indicators \<Rightarrow> snapshot \<Rightarrow> jsnum \<Rightarrow> stoch_out \<Rightarrow> stoch_out \<Rightarrow> macd_out \<Rightarrow> macd_out option \<Rightarrow> sell_signal option" where
  "priceLevels lib sn pullbackHigh sc sp mc mp =
     (let distToEMA = js_abs (js_sub pullbackHigh (e21 sn));
          conf = min (confidenceScore sn distToEMA sc sp mc mp) 95
      in if conf < MIN_CONF then None
         else
           let sl = addD lib (price sn) (mulD lib (atrVal sn) (Some ATR_MUL));
               risk = js_abs (subD lib (price sn) sl)
           in if js_le risk (Some 0) \<or> js_gt risk (mulD lib (atrVal sn) (Some 3)) then None
              else
                Some \<lparr>s_confidence = conf, s_price = price sn, s_sl = sl,
                      s_tp = subD lib (price sn) (mulD lib risk (Some (roundD lib RR))),
                      s_risk = risk, s_atr = atrVal sn, s_pullbackHigh = pullbackHigh,
                      s_ema21 = e21 sn, s_rsi = rsiVal sn, s_stochK = st_k sc,
                      s_macdHist = m_histogram mc,
                      s_reasons = buildReasons conf distToEMA sn sc sp mc mp\<rparr>)"

text \<open>The body of \<^verbatim>\<open>getSellSignal\<close> after the six indicator calls.\<close>

definition sellGates ::
  "indicators \<Rightarrow> candle list \<Rightarrow> jsnum list \<Rightarrow> jsnum list \<Rightarrow> jsnum list \<Rightarrow> jsnum list \<Rightarrow> jsnum list \<Rightarrow>
   stoch_out list \<Rightarrow> macd_out list \<Rightarrow> sell_signal option" where
  "sellGates lib c1 closes ema8 ema21 rsi atr stoch macd =
     (if ema21 = [] \<or> rsi = [] \<or> atr = [] then None
      else
        let sn = takeSnapshot closes ema8 ema21 rsi atr stoch macd
        in if \<not> truthy (atrVal sn) \<or> js_lt (atrVal sn) (Some (3 / 10)) then None
           else
             let pullbackHigh = pullbackHighOf c1
             in if pullbackRejects sn pullbackHigh then None
                else if momentumRejects sn then None
                else
                  (case stochCur sn of
                     None \<Rightarrow> None
                   | Some sc \<Rightarrow>
                       (case stochPrev sn of
                          None \<Rightarrow> None
                        | Some sp \<Rightarrow>
                            if stochRejects sc sp then None
                            else
                              (case macdCur sn of
                                 None \<Rightarrow> None
                               | Some mc \<Rightarrow>
                                   if macdRejects mc (macdPrev sn) then None
                                   else priceLevels lib sn pullbackHigh sc sp mc (macdPrev sn)))))"

text \<open>The \<^verbatim>\<open>try\<close> block of \<^verbatim>\<open>getSellSignal\<close>: the six indicator calls, in order.\<close>

definition getSellSignal_try ::
  "indicators \<Rightarrow> candle list \<Rightarrow> js_error + sell_signal option" where
  "getSellSignal_try lib c1 =
     (let closes = map closeOf c1; highs = map highOf c1; lows = map lowOf c1
      in bind_try (EMA lib 8 closes) (\<lambda>ema8.
         bind_try (EMA lib 21 closes) (\<lambda>ema21.
         bind_try (RSI lib 7 closes) (\<lambda>rsi.
         bind_try (ATR lib 7 highs lows closes) (\<lambda>atr.
         bind_try (Stochastic lib 5 3 highs lows closes) (\<lambda>stoch.
         bind_try (MACD lib 5 13 4 closes) (\<lambda>macd.
           Inr (sellGates lib c1 closes ema8 ema21 rsi atr stoch macd))))))))"

text \<open>\<^verbatim>\<open>getSellSignal\<close>: as in the trend filters, the guard and the three \<^verbatim>\<open>map\<close>
  calls stand before the \<^verbatim>\<open>try\<close> block.\<close>

definition getSellSignal ::
  "indicators \<Rightarrow> engine \<Rightarrow> symbol \<Rightarrow> js_error + sell_signal option" where
  "getSellSignal lib st symb =
     (case js_get (candles1m st) symb of
        Absent \<Rightarrow> Inr None
      | Inherited len \<Rightarrow>
          (case len of
             None \<Rightarrow> Inl TypeError
           | Some n \<Rightarrow> if n < 30 then Inr None else Inl TypeError)
      | Own c1 \<Rightarrow>
          if length c1 < 30 then Inr None
          else Inr (case getSellSignal_try lib c1 of Inl e \<Rightarrow> None | Inr r \<Rightarrow> r))"

section \<open>The decision\<close>

text \<open>
  The results of \<^verbatim>\<open>generateSignal\<close>. A \<^verbatim>\<open>HOLD\<close> carries its reason; the reason
  strings are kept as data: the hour printed by the session message, the minutes
  printed by the cool-down message (\<open>None\<close> where the source prints \<^verbatim>\<open>NaN\<close>), the
  open trade, the 5-minute trend.
\<close>

datatype hold_reason =
    OutsideSession "int option"
  | CooldownWait "int option"
  | OpenTradeHeld trade
  | OpenTradeForeign
  | MacroBullish
  | TrendNotBearish trend
  | NoSetup

datatype signal_result = HOLD hold_reason | SELL sell_signal trade trend

definition cooldownMs :: int where
  "cooldownMs = COOLDOWN * 60000"

text \<open>\<^verbatim>\<open>this.lastSignalTs[symbol] || 0\<close>.\<close>

definition lastSignalOr0 :: "engine \<Rightarrow> symbol \<Rightarrow> int" where
  "lastSignalOr0 st symb = (case lastSignalTs st symb of None \<Rightarrow> 0 | Some v \<Rightarrow> v)"

text \<open>\<^verbatim>\<open>Math.ceil((cooldownMs - (ts - this.lastSignalTs[symbol])) / 60000)\<close>.\<close>

definition waitMin :: "engine \<Rightarrow> symbol \<Rightarrow> int \<Rightarrow> int option" where
  "waitMin st symb ts =
     map_option (\<lambda>v. \<lceil>real_of_int (cooldownMs - (ts - v)) / 60000\<rceil>) (lastSignalTs st symb)"

definition makeTrade :: "symbol \<Rightarrow> real \<Rightarrow> int \<Rightarrow> sell_signal \<Rightarrow> trade" where
  "makeTrade symb currentPrice ts sg =
     \<lparr>t_symbol = symb, t_entryPrice = currentPrice, t_sl = s_sl sg, t_tp = s_tp sg,
      t_risk = s_risk sg, t_rr = RR, t_confidence = s_confidence sg, t_atr = s_atr sg,
      t_openTime = ts, t_reasons = s_reasons sg\<rparr>"

text \<open>
  \<^verbatim>\<open>generateSignal\<close>. For a symbol that names an inherited member and has no entry of
  its own, \<^verbatim>\<open>ts - (this.lastSignalTs[symbol] || 0)\<close> is \<^verbatim>\<open>NaN\<close>, so the cool-down
  test is false, and \<^verbatim>\<open>this.openTrade[symbol]\<close> is truthy, so the call holds
  (\<open>OpenTradeForeign\<close>). An exception of a filter leaves the function.
\<close>

definition coolingDown :: "engine \<Rightarrow> symbol \<Rightarrow> int \<Rightarrow> bool" where
  "coolingDown st symb ts =
     (case js_get (lastSignalTs st) symb of
        Inherited len \<Rightarrow> False
      | Absent \<Rightarrow> ts - lastSignalOr0 st symb < cooldownMs
      | Own v \<Rightarrow> ts - lastSignalOr0 st symb < cooldownMs)"

definition generateSignal ::
  "indicators \<Rightarrow> engine \<Rightarrow> symbol \<Rightarrow> real \<Rightarrow> int \<Rightarrow> engine \<times> (js_error + signal_result)" where
  "generateSignal lib st symb currentPrice ts =
     (if \<not> isScalpSession ts then
        (st, Inr (HOLD (OutsideSession (if validDate ts then Some (getUTCHours ts) else None))))
      else if coolingDown st symb ts then
        (st, Inr (HOLD (CooldownWait (waitMin st symb ts))))
      else
        (case js_get (openTrade st) symb of
           Own t \<Rightarrow> (st, Inr (HOLD (OpenTradeHeld t)))
         | Inherited len \<Rightarrow> (st, Inr (HOLD OpenTradeForeign))
         | Absent \<Rightarrow>
             (case get1hMacro lib st symb of
                Inl e \<Rightarrow> (st, Inl e)
              | Inr macro \<Rightarrow>
                  if macro = BULLISH then (st, Inr (HOLD MacroBullish))
                  else
                    (case get5mTrend lib st symb of
                       Inl e \<Rightarrow> (st, Inl e)
                     | Inr trend \<Rightarrow>
                         if trend \<noteq> BEARISH then (st, Inr (HOLD (TrendNotBearish trend)))
                         else
                           (case getSellSignal lib st symb of
                              Inl e \<Rightarrow> (st, Inl e)
                            | Inr None \<Rightarrow> (st, Inr (HOLD NoSetup))
                            | Inr (Some sg) \<Rightarrow>
                                let tr = makeTrade symb currentPrice ts sg
                                in (st\<lparr>openTrade := (openTrade st)(symb \<mapsto> tr),
                                       lastSignalTs := (lastSignalTs st)(symb \<mapsto> ts)\<rparr>,
                                    Inr (SELL sg tr trend)))))))"

section \<open>The statistics report\<close>

text \<open>
  \<^verbatim>\<open>getStats\<close> returns texts: \<open>Fixed d x\<close> is \<^verbatim>\<open>x.toFixed(d)\<close>, the decimal rendering
  of \<open>x\<close> with \<open>d\<close> digits after the point; \<open>InfinitySign\<close> is the one-character string
  with the infinity sign.
\<close>

datatype js_text = Text string | Fixed nat real | InfinitySign

record stats_report =
  r_stats :: stats
  r_winRate :: js_text
  r_profitFactor :: js_text
  r_closed :: nat

definition getStats :: "engine \<Rightarrow> stats_report" where
  "getStats st =
     (let closed = wins (stats st) + losses (stats st);
          wr = (if closed > 0 then Fixed 1 (real (wins (stats st)) / real closed * 100)
                else Text ''0'');
          pf = (if losses (stats st) > 0
                then Fixed 2 (real (wins (stats st)) * RR / real (losses (stats st)))
                else InfinitySign)
      in \<lparr>r_stats = stats st, r_winRate = wr, r_profitFactor = pf, r_closed = closed\<rparr>)"

section \<open>Sequences of calls\<close>

text \<open>
  The public operations of the engine that change or read the trading state, as the
  caller may issue them in any order; \<open>ResolveOpenTrade\<close> carries the wall-clock time
  of the call. An exception of a call is handed to the caller, who goes on with the
  state the call left behind.
\<close>

datatype op =
    GenerateSignal symbol real int
  | ResolveOpenTrade symbol candle int
  | Load1mCandles symbol "candle list"
  | Load5mCandles symbol "candle option list"
  | Load1hCandles symbol "candle option list"
  | Push1mCandle symbol candle
  | Push5mCandle symbol "candle option"

datatype response =
    Signal "js_error + signal_result"
  | Resolved "js_error + outcome option"
  | Done

fun exec :: "indicators \<Rightarrow> engine \<Rightarrow> op \<Rightarrow> engine \<times> response" where
  "exec lib st (GenerateSignal symb p ts) =
     (case generateSignal lib st symb p ts of (st1, r) \<Rightarrow> (st1, Signal r))"
| "exec lib st (ResolveOpenTrade symb k now) =
     (case resolveOpenTrade st symb k now of (st1, r) \<Rightarrow> (st1, Resolved r))"
| "exec lib st (Load1mCandles symb ks) = (load1mCandles st symb ks, Done)"
| "exec lib st (Load5mCandles symb ks) = (load5mCandles st symb ks, Done)"
| "exec lib st (Load1hCandles symb ks) = (load1hCandles st symb ks, Done)"
| "exec lib st (Push1mCandle symb k) = (push1mCandle st symb k, Done)"
| "exec lib st (Push5mCandle symb k) = (push5mCandle st symb k, Done)"

fun run :: "indicators \<Rightarrow> engine \<Rightarrow> op list \<Rightarrow> engine \<times> response list" where
  "run lib st [] = (st, [])"
| "run lib st (x # xs) =
     (case exec lib st x of
        (st1, r) \<Rightarrow> (case run lib st1 xs of (st2, rs) \<Rightarrow> (st2, r # rs)))"

text \<open>
  What a sequence of calls shows from outside, read off the calls and their results:
  the time of a \<^verbatim>\<open>SELL\<close> for a symbol (a trade was opened), and a call of
  \<^verbatim>\<open>resolveOpenTrade\<close> for the symbol that did not report "still open" (a trade
  was closed: the call returned an outcome, or threw after clearing the trade).
\<close>

fun sellAt :: "symbol \<Rightarrow> op \<times> response \<Rightarrow> int option" where
  "sellAt symb (GenerateSignal s p ts, Signal (Inr (SELL sg tr tn))) = (if s = symb then Some ts else None)"
| "sellAt symb x = None"

fun closedAt :: "symbol \<Rightarrow> op \<times> response \<Rightarrow> bool" where
  "closedAt symb (ResolveOpenTrade s k now, Resolved r) = (s = symb \<and> r \<noteq> Inr None)"
| "closedAt symb x = False"

definition sellTimes :: "symbol \<Rightarrow> op list \<Rightarrow> response list \<Rightarrow> int list" where
  "sellTimes symb ops rs = List.map_filter (sellAt symb) (zip ops rs)"

definition closeCount :: "symbol \<Rightarrow> op list \<Rightarrow> response list \<Rightarrow> nat" where
  "closeCount symb ops rs = length (filter (closedAt symb) (zip ops rs))"

definition openCount :: "engine \<Rightarrow> symbol \<Rightarrow> nat" where
  "openCount st symb = (case openTrade st symb of None \<Rightarrow> 0 | Some t \<Rightarrow> 1)"

fun genOrResolve :: "op \<Rightarrow> bool" where
  "genOrResolve (GenerateSignal s p ts) = True"
| "genOrResolve (ResolveOpenTrade s k now) = True"
| "genOrResolve x = False"

fun notLoad1m :: "symbol \<Rightarrow> op \<Rightarrow> bool" where
  "notLoad1m symb (Load1mCandles s ks) = (s \<noteq> symb)"
| "notLoad1m symb x = True"

text \<open>An indicator call is unavailable when it throws or returns an empty array.\<close>

definition unavailable :: "js_error + 'a list \<Rightarrow> bool" where
  "unavailable r = (case r of Inl e \<Rightarrow> True | Inr xs \<Rightarrow> xs = [])"

section \<open>A concrete scenario\<close>

text \<open>
  One instrument, fed with 30 one-minute and 55 five-minute candles, and an indicator
  library that answers from a fixed table and computes exactly (the stop and the risk
  of the scenario are exact in doubles too): a 5-minute bearish stack (EMA9 < EMA21 <
  EMA50, ADX 30) and a 1-minute pull-back whose highest high of the 7 preceding bars,
  1999.9, stays just under the EMA21 of 2000, with ATR 1. The timestamps are in
  milliseconds: Tuesday 2024-01-02 at 12:30, 12:58 and 14:00 UTC.
\<close>

definition demoSym :: symbol where
  "demoSym = ''XAU/USD''"

definition mkCandle :: "real \<Rightarrow> real \<Rightarrow> real \<Rightarrow> candle" where
  "mkCandle hi lo cl =
     \<lparr>c_high = Some hi, c_h = Some hi, c_low = Some lo, c_l = Some lo,
      c_close = Some cl, c_c = Some cl\<rparr>"

definition demo1m :: "candle list" where
  "demo1m = replicate 28 (mkCandle (19999 / 10) (19992 / 10) (19996 / 10))
            @ [mkCandle (19997 / 10) (19993 / 10) (19994 / 10),
               mkCandle (19995 / 10) (19989 / 10) 1999]"

definition demo5m :: "candle option list" where
  "demo5m = replicate 55 (Some (mkCandle 2000 1998 1999))"

definition demoLib :: indicators where
  "demoLib =
     \<lparr>EMA = (\<lambda>p xs. Inr (if p = 8 then [Some (19999 / 10), Some (19995 / 10)]
                          else if p = 9 then [Some (19998 / 10)]
                          else if p = 21 then [Some (20005 / 10), Some 2000]
                          else [Some 2003])),
      RSI = (\<lambda>p xs. Inr [Some 66, Some 62]),
      ATR = (\<lambda>p hs ls cs. Inr [Some 1]),
      Stochastic = (\<lambda>p q hs ls cs. Inr [\<lparr>st_k = Some 80, st_d = Some 75\<rparr>,
                                          \<lparr>st_k = Some 60, st_d = Some 70\<rparr>]),
      ADX = (\<lambda>p hs ls cs. Inr [\<lparr>a_adx = Some 30\<rparr>]),
      MACD = (\<lambda>p q r xs. Inr [\<lparr>m_histogram = Some (- (1 / 10))\<rparr>,
                                \<lparr>m_histogram = Some (- (2 / 10))\<rparr>]),
      roundD = (\<lambda>x. x)\<rparr>"

text \<open>A library whose moving average throws, and one whose ADX has no value yet.\<close>

definition throwingLib :: indicators where
  "throwingLib = demoLib\<lparr>EMA := (\<lambda>p xs. Inl IndicatorError)\<rparr>"

definition warmingLib :: indicators where
  "warmingLib = demoLib\<lparr>ADX := (\<lambda>p hs ls cs. Inr [])\<rparr>"

definition demoSignal :: sell_signal where
  "demoSignal =
     \<lparr>s_confidence = 95, s_price = Some 1999, s_sl = Some 2000, s_tp = Some (19972 / 10),
      s_risk = Some 1, s_atr = Some 1, s_pullbackHigh = Some (19999 / 10),
      s_ema21 = Some 2000, s_rsi = Some 62, s_stochK = Some 60,
      s_macdHist = Some (- (2 / 10)),
      s_reasons = [PerfectTap, RsiOverbought 62, FreshStochCross, MacdAccelerating]\<rparr>"

definition tue1230 :: int where "tue1230 = 1704198600000"
definition tue1258 :: int where "tue1258 = 1704200280000"
definition tue1400 :: int where "tue1400 = 1704204000000"

text \<open>A timestamp beyond the range of \<^verbatim>\<open>Date\<close> whose day and hour, were it valid,
  would be a Tuesday at 12:30.\<close>

definition beyondDate :: int where "beyondDate = 8640000304200000"

text \<open>The engine after the start-up loads of the caller, and an engine fed by
  \<^verbatim>\<open>push1mCandle\<close> alone, one candle at a time.\<close>

definition demoEngine :: engine where
  "demoEngine = load5mCandles (load1mCandles new_engine demoSym demo1m) demoSym demo5m"

definition pushedEngine :: engine where
  "pushedEngine =
     load5mCandles (foldl (\<lambda>st k. push1mCandle st demoSym k) new_engine demo1m) demoSym demo5m"

text \<open>The same engines with the trade of the scenario open since 12:30.\<close>

text \<open>A 5-minute history of 55 entries whose last one is \<^verbatim>\<open>null\<close>.\<close>

definition holed5m :: "candle option list" where
  "holed5m = replicate 54 (Some (mkCandle 2000 1998 1999)) @ [None]"

definition demoOpen :: engine where
  "demoOpen = fst (generateSignal demoLib demoEngine demoSym 1999 tue1230)"

definition pushedOpen :: engine where
  "pushedOpen = fst (generateSignal demoLib pushedEngine demoSym 1999 tue1230)"

definition demoTrade :: trade where
  "demoTrade = makeTrade demoSym 1999 tue1230 demoSignal"

text \<open>A bar that touches both the stop (2000) and the target (1997.2) of that trade, and
  one that touches neither.\<close>

definition stopAndTarget :: candle where
  "stopAndTarget = mkCandle 2001 1997 1999"


text \<open>The engine with 1-hour candles as well, and one with some closed trades.\<close>

definition macroEngine :: engine where
  "macroEngine = load1hCandles demoEngine demoSym demo5m"


text \<open>A sell at 12:30, a second request at 12:36 while the trade is open, the stop
  touched at 12:37, and a new sell at 12:38.\<close>

definition demoOps :: "op list" where
  "demoOps =
     [GenerateSignal demoSym 1999 tue1230,
      GenerateSignal demoSym 1999 (tue1230 + 360000),
      ResolveOpenTrade demoSym stopAndTarget (tue1230 + 420000),
      GenerateSignal demoSym 1999 (tue1230 + 480000)]"



section \<open>Session gate: the window\<close>

lemma isScalpSession_window:
  "isScalpSession ts \<Longrightarrow>
     validDate ts \<and> 1 \<le> getUTCDay ts \<and> getUTCDay ts \<le> 5 \<and> 12 \<le> getUTCHours ts \<and> getUTCHours ts < 13"
proof -
  assume a: "isScalpSession ts"
  have d: "0 \<le> getUTCDay ts \<and> getUTCDay ts < 7"
    by (simp add: getUTCDay_def)
  from a have v: "validDate ts"
    by (simp add: isScalpSession_def split: if_splits)
  from a v have "getUTCDay ts \<noteq> 0 \<and> getUTCDay ts \<noteq> 6
      \<and> HOUR_START \<le> getUTCHours ts \<and> getUTCHours ts < HOUR_END"
    by (simp add: isScalpSession_def Let_def split: if_splits)
  with d v show ?thesis
    by (simp add: HOUR_START_def HOUR_END_def)
qed

lemma generateSignal_outside:
  "\<not> isScalpSession ts \<Longrightarrow>
     generateSignal lib st symb p ts =
       (st, Inr (HOLD (OutsideSession (if validDate ts then Some (getUTCHours ts) else None))))"
  by (simp add: generateSignal_def)

lemma tue1400_hours: "getUTCHours tue1400 = 14"
  by code_simp

lemma tue1230_session: "isScalpSession tue1230"
  by code_simp

lemma beyondDate_window:
  "\<not> validDate beyondDate \<and> getUTCDay beyondDate = 2 \<and> getUTCHours beyondDate = 12"
  by code_simp

text \<open>
  Claim C6. For every timestamp, unless it is a valid date on a day Monday to Friday
  (days 1 to 5) with its UTC hour in [12, 13), \<^verbatim>\<open>generateSignal\<close> returns a
  \<^verbatim>\<open>HOLD\<close> and leaves the engine as it was; a timestamp outside the range of
  \<^verbatim>\<open>Date\<close> is held as well, whatever day and hour its number would give. And the
  session test, with its Monday and Friday rules, accepts only valid timestamps of
  that nominal window, so the two rules never widen it.
\<close>

theorem sell_only_inside_session:
  "(\<not> (validDate ts \<and> 1 \<le> getUTCDay ts \<and> getUTCDay ts \<le> 5
        \<and> 12 \<le> getUTCHours ts \<and> getUTCHours ts < 13)
      \<longrightarrow> (\<exists>r. generateSignal lib st symb p ts = (st, Inr (HOLD r))))
   \<and> (isScalpSession ts
      \<longrightarrow> validDate ts \<and> 1 \<le> getUTCDay ts \<and> getUTCDay ts \<le> 5
          \<and> 12 \<le> getUTCHours ts \<and> getUTCHours ts < 13)"
proof (intro conjI impI)
  assume out: "\<not> (validDate ts \<and> 1 \<le> getUTCDay ts \<and> getUTCDay ts \<le> 5
        \<and> 12 \<le> getUTCHours ts \<and> getUTCHours ts < 13)"
  then have "\<not> isScalpSession ts"
    using isScalpSession_window [of ts] by blast
  then show "\<exists>r. generateSignal lib st symb p ts = (st, Inr (HOLD r))"
    by (simp add: generateSignal_outside)
next
  assume "isScalpSession ts"
  then show "validDate ts" "1 \<le> getUTCDay ts" "getUTCDay ts \<le> 5"
    "12 \<le> getUTCHours ts" "getUTCHours ts < 13"
    using isScalpSession_window [of ts] by simp_all
qed

theorem sell_only_inside_session_witness:
  "\<not> (validDate tue1400 \<and> 1 \<le> getUTCDay tue1400 \<and> getUTCDay tue1400 \<le> 5
       \<and> 12 \<le> getUTCHours tue1400 \<and> getUTCHours tue1400 < 13)
   \<and> (\<exists>r. generateSignal demoLib demoEngine demoSym 1999 tue1400 = (demoEngine, Inr (HOLD r)))
   \<and> \<not> validDate beyondDate \<and> getUTCDay beyondDate = 2 \<and> getUTCHours beyondDate = 12
   \<and> (\<exists>r. generateSignal demoLib demoEngine demoSym 1999 beyondDate = (demoEngine, Inr (HOLD r)))
   \<and> isScalpSession tue1230 \<and> validDate tue1230
   \<and> getUTCDay tue1230 = 2 \<and> getUTCHours tue1230 = 12"
proof -
  have a: "\<not> (validDate tue1400 \<and> 1 \<le> getUTCDay tue1400 \<and> getUTCDay tue1400 \<le> 5
       \<and> 12 \<le> getUTCHours tue1400 \<and> getUTCHours tue1400 < 13)"
    by (simp add: tue1400_hours)
  have b: "getUTCDay tue1230 = 2 \<and> getUTCHours tue1230 = 12"
    by code_simp
  show ?thesis
    using sell_only_inside_session [of tue1400 demoLib demoEngine demoSym 1999]
      sell_only_inside_session [of beyondDate demoLib demoEngine demoSym 1999]
      sell_only_inside_session [of tue1230 demoLib demoEngine demoSym 1999]
      a b tue1230_session beyondDate_window
    by blast
qed

section \<open>The statistics report: defined values\<close>



section \<open>Trend filters: silence on errors, and where they throw\<close>

lemma js_get_plain:
  "objectPrototype k = None \<Longrightarrow> js_get m k = (case m k of None \<Rightarrow> Absent | Some v \<Rightarrow> Own v)"
  by (simp add: js_get_def split: option.splits)

lemma js_get_own: "m k = Some v \<Longrightarrow> js_get m k = Own v"
  by (simp add: js_get_def)

lemma get1hMacro_short:
  "objectPrototype symb = None \<Longrightarrow>
   candles1h st symb = None \<or> (\<exists>ks. candles1h st symb = Some ks \<and> length ks < 55)
     \<Longrightarrow> get1hMacro lib st symb = Inr NEUTRAL"
  by (auto simp: get1hMacro_def js_get_plain js_get_own)

lemma get5mTrend_short:
  "objectPrototype symb = None \<Longrightarrow>
   candles5m st symb = None \<or> (\<exists>ks. candles5m st symb = Some ks \<and> length ks < 55)
     \<Longrightarrow> get5mTrend lib st symb = Inr NEUTRAL"
  by (auto simp: get5mTrend_def js_get_plain js_get_own)

lemma get1hMacro_try_unavailable:
  "unavailable (EMA lib 21 closes) \<or> unavailable (EMA lib 50 closes)
     \<or> unavailable (ADX lib 14 highs lows closes)
   \<Longrightarrow> get1hMacro_try lib closes highs lows = Inr NEUTRAL
       \<or> (\<exists>e. get1hMacro_try lib closes highs lows = Inl e)"
  by (auto simp: get1hMacro_try_def bind_try_def unavailable_def split: sum.splits)

lemma get5mTrend_try_unavailable:
  "unavailable (EMA lib 9 closes) \<or> unavailable (EMA lib 21 closes)
     \<or> unavailable (EMA lib 50 closes) \<or> unavailable (ADX lib 14 highs lows closes)
   \<Longrightarrow> get5mTrend_try lib closes highs lows = Inr NEUTRAL
       \<or> (\<exists>e. get5mTrend_try lib closes highs lows = Inl e)"
  by (auto simp: get5mTrend_try_def bind_try_def unavailable_def split: sum.splits)

text \<open>With a history of candle objects, an indicator call that throws or returns an
  empty array gives \<^verbatim>\<open>NEUTRAL\<close>: what is thrown inside the \<^verbatim>\<open>try\<close> block is caught.\<close>

lemma get1hMacro_unavailable:
  assumes "candles1h st symb = Some es" and "those es = Some ks"
    and "unavailable (EMA lib 21 (map closeOf ks)) \<or> unavailable (EMA lib 50 (map closeOf ks))
         \<or> unavailable (ADX lib 14 (map highOf ks) (map lowOf ks) (map closeOf ks))"
  shows "get1hMacro lib st symb = Inr NEUTRAL"
  using get1hMacro_try_unavailable [OF assms(3)] assms(1,2)
  by (auto simp: get1hMacro_def js_get_own readEntries_def bind_try_def)

lemma get5mTrend_unavailable:
  assumes "candles5m st symb = Some es" and "those es = Some ks"
    and "unavailable (EMA lib 9 (map closeOf ks)) \<or> unavailable (EMA lib 21 (map closeOf ks))
         \<or> unavailable (EMA lib 50 (map closeOf ks))
         \<or> unavailable (ADX lib 14 (map highOf ks) (map lowOf ks) (map closeOf ks))"
  shows "get5mTrend lib st symb = Inr NEUTRAL"
  using get5mTrend_try_unavailable [OF assms(3)] assms(1,2)
  by (auto simp: get5mTrend_def js_get_own readEntries_def bind_try_def)

lemma trend_filters_neutral_examples:
  "get1hMacro demoLib demoEngine demoSym = Inr NEUTRAL
   \<and> get1hMacro throwingLib macroEngine demoSym = Inr NEUTRAL
   \<and> get5mTrend demoLib new_engine demoSym = Inr NEUTRAL
   \<and> get5mTrend warmingLib demoEngine demoSym = Inr NEUTRAL
   \<and> get5mTrend demoLib new_engine ''toString'' = Inr NEUTRAL"
  by code_simp

text \<open>
  Claim C9, where the trend filters throw. On a new engine the symbol
  \<^verbatim>\<open>__proto__\<close> has no history, yet both filters read the prototype object under
  it, pass the length guard and throw at \<^verbatim>\<open>map\<close>; and a history of 55 entries whose
  last one is \<^verbatim>\<open>null\<close> throws inside the \<^verbatim>\<open>map\<close> callback. Both happen before the
  \<^verbatim>\<open>try\<close> block, so the exception leaves the function where the claim says
  \<^verbatim>\<open>NEUTRAL\<close>. Short or missing histories of other symbols and failing indicator
  calls do give \<^verbatim>\<open>NEUTRAL\<close> (the lemmas above).
\<close>

theorem trend_filters_throw_before_try:
  "candles5m new_engine ''__proto__'' = None
   \<and> get5mTrend demoLib new_engine ''__proto__'' = Inl TypeError
   \<and> candles1h new_engine ''__proto__'' = None
   \<and> get1hMacro demoLib new_engine ''__proto__'' = Inl TypeError
   \<and> length holed5m = 55
   \<and> get5mTrend demoLib (load5mCandles new_engine demoSym holed5m) demoSym = Inl TypeError
   \<and> get1hMacro demoLib (load1hCandles new_engine demoSym holed5m) demoSym = Inl TypeError"
  by code_simp

section \<open>Recording a result\<close>


lemma recordResult_missing:
  "bySymbol (stats st) symb = None \<Longrightarrow> res \<noteq> EXPIRED \<Longrightarrow>
     snd (recordResult st symb res r) = Inl TypeError"
  by (cases res) (simp_all add: recordResult_def Let_def)

lemma recordResult_present:
  "bySymbol (stats st) symb = Some b \<Longrightarrow> snd (recordResult st symb res r) = Inr ()"
  by (cases res) (simp_all add: recordResult_def Let_def)

lemma recordResult_fields:
  "openTrade (fst (recordResult st symb res r)) = openTrade st
   \<and> lastSignalTs (fst (recordResult st symb res r)) = lastSignalTs st
   \<and> candles1m (fst (recordResult st symb res r)) = candles1m st
   \<and> candles5m (fst (recordResult st symb res r)) = candles5m st
   \<and> candles1h (fst (recordResult st symb res r)) = candles1h st"
  by (cases res) (simp_all add: recordResult_def Let_def split: option.splits)



section \<open>Closing a trade\<close>

lemma closeTrade_eq:
  "closeTrade st symb tr res r px =
     (fst (recordResult (st\<lparr>openTrade := (openTrade st)(symb := None)\<rparr>) symb res r),
      case snd (recordResult (st\<lparr>openTrade := (openTrade st)(symb := None)\<rparr>) symb res r) of
        Inl e \<Rightarrow> Inl e
      | Inr u \<Rightarrow> Inr (Some \<lparr>o_trade = tr, o_result = res, o_rPnL = r, o_closePrice = px\<rparr>))"
  by (simp add: closeTrade_def Let_def split: prod.splits sum.splits)

lemma closeTrade_openTrade:
  "openTrade (fst (closeTrade st symb tr res r px)) = (openTrade st)(symb := None)"
  by (simp add: closeTrade_eq recordResult_fields)

lemma closeTrade_frame:
  "lastSignalTs (fst (closeTrade st symb tr res r px)) = lastSignalTs st
   \<and> candles1m (fst (closeTrade st symb tr res r px)) = candles1m st
   \<and> candles5m (fst (closeTrade st symb tr res r px)) = candles5m st
   \<and> candles1h (fst (closeTrade st symb tr res r px)) = candles1h st"
  by (simp add: closeTrade_eq recordResult_fields)

lemma closeTrade_not_still_open:
  "snd (closeTrade st symb tr res r px) \<noteq> Inr None"
  by (simp add: closeTrade_eq split: sum.splits)

lemma closeTrade_result:
  "snd (closeTrade st symb tr res r px) =
     (case snd (recordResult (st\<lparr>openTrade := (openTrade st)(symb := None)\<rparr>) symb res r) of
        Inl e \<Rightarrow> Inl e
      | Inr u \<Rightarrow> Inr (Some \<lparr>o_trade = tr, o_result = res, o_rPnL = r, o_closePrice = px\<rparr>))"
  by (simp add: closeTrade_eq)


section \<open>Resolving the open trade\<close>

lemma resolveOpenTrade_none:
  "openTrade st symb = None \<Longrightarrow> resolveOpenTrade st symb k now = (st, Inr None)"
  by (simp add: resolveOpenTrade_def)

lemma resolveOpenTrade_still_open:
  "snd (resolveOpenTrade st symb k now) = Inr None \<Longrightarrow> fst (resolveOpenTrade st symb k now) = st"
  using closeTrade_not_still_open
  by (auto simp: resolveOpenTrade_def split: option.splits if_splits)

lemma resolveOpenTrade_closes:
  "snd (resolveOpenTrade st symb k now) \<noteq> Inr None \<Longrightarrow>
     openTrade st symb \<noteq> None
     \<and> openTrade (fst (resolveOpenTrade st symb k now)) = (openTrade st)(symb := None)"
  by (auto simp: resolveOpenTrade_def closeTrade_openTrade split: option.splits if_splits)

lemma resolveOpenTrade_frame:
  "lastSignalTs (fst (resolveOpenTrade st symb k now)) = lastSignalTs st
   \<and> candles1m (fst (resolveOpenTrade st symb k now)) = candles1m st
   \<and> candles5m (fst (resolveOpenTrade st symb k now)) = candles5m st
   \<and> candles1h (fst (resolveOpenTrade st symb k now)) = candles1h st"
  by (simp add: resolveOpenTrade_def closeTrade_frame split: option.splits)

text \<open>The stop is tested first. What the call returns then depends on the per-symbol
  statistics record of the symbol.\<close>

lemma resolveOpenTrade_stop_first:
  assumes "openTrade st symb = Some tr" and "js_ge (highOf k) (t_sl tr)"
    and "bySymbol (stats st) symb = Some b"
  shows "snd (resolveOpenTrade st symb k now) =
           Inr (Some \<lparr>o_trade = tr, o_result = LOSS, o_rPnL = - 1, o_closePrice = t_sl tr\<rparr>)
         \<and> openTrade (fst (resolveOpenTrade st symb k now)) symb = None"
  using assms recordResult_present [of "st\<lparr>openTrade := (openTrade st)(symb := None)\<rparr>" symb b LOSS "- 1"]
  by (simp add: resolveOpenTrade_def closeTrade_result closeTrade_openTrade)

lemma resolveOpenTrade_stop_throws:
  assumes "openTrade st symb = Some tr" and "js_ge (highOf k) (t_sl tr)"
    and "bySymbol (stats st) symb = None"
  shows "snd (resolveOpenTrade st symb k now) = Inl TypeError
         \<and> openTrade (fst (resolveOpenTrade st symb k now)) symb = None"
  using assms recordResult_missing [of "st\<lparr>openTrade := (openTrade st)(symb := None)\<rparr>" symb LOSS "- 1"]
  by (simp add: resolveOpenTrade_def closeTrade_result closeTrade_openTrade)

section \<open>The decision: what a result says about the state\<close>

lemma js_get_Absent: "js_get m k = Absent \<Longrightarrow> m k = None \<and> objectPrototype k = None"
  by (simp add: js_get_def split: option.splits)

lemma coolingDown_plain:
  "objectPrototype symb = None \<Longrightarrow>
     coolingDown st symb ts = (ts - lastSignalOr0 st symb < cooldownMs)"
  by (simp add: coolingDown_def js_get_plain split: option.splits)

lemma generateSignal_SELL:
  assumes "snd (generateSignal lib st symb p ts) = Inr (SELL sg tr tn)"
  shows "isScalpSession ts \<and> cooldownMs \<le> ts - lastSignalOr0 st symb
         \<and> openTrade st symb = None \<and> get5mTrend lib st symb = Inr BEARISH \<and> tn = BEARISH
         \<and> getSellSignal lib st symb = Inr (Some sg) \<and> tr = makeTrade symb p ts sg
         \<and> fst (generateSignal lib st symb p ts) =
             st\<lparr>openTrade := (openTrade st)(symb \<mapsto> tr),
                lastSignalTs := (lastSignalTs st)(symb \<mapsto> ts)\<rparr>"
proof -
  from assms have a: "isScalpSession ts" and b: "\<not> coolingDown st symb ts"
    and c: "js_get (openTrade st) symb = Absent"
    by (auto simp: generateSignal_def Let_def split: if_splits js_prop.splits sum.splits option.splits)
  from js_get_Absent [OF c] have d: "openTrade st symb = None" and e: "objectPrototype symb = None"
    by simp_all
  from b e have f: "cooldownMs \<le> ts - lastSignalOr0 st symb"
    by (simp add: coolingDown_plain)
  from assms a b c have "get5mTrend lib st symb = Inr BEARISH \<and> tn = BEARISH
         \<and> getSellSignal lib st symb = Inr (Some sg) \<and> tr = makeTrade symb p ts sg
         \<and> fst (generateSignal lib st symb p ts) =
             st\<lparr>openTrade := (openTrade st)(symb \<mapsto> tr),
                lastSignalTs := (lastSignalTs st)(symb \<mapsto> ts)\<rparr>"
    by (auto simp: generateSignal_def Let_def split: if_splits sum.splits option.splits)
  with a d f show ?thesis by simp
qed

text \<open>A call that does not sell, whether it holds or throws, leaves the engine as it was.\<close>

lemma generateSignal_HOLD:
  "snd (generateSignal lib st symb p ts) = Inr (HOLD r) \<Longrightarrow> fst (generateSignal lib st symb p ts) = st"
  by (auto simp: generateSignal_def Let_def split: if_splits js_prop.splits sum.splits option.splits)

lemma generateSignal_throws:
  "snd (generateSignal lib st symb p ts) = Inl e \<Longrightarrow> fst (generateSignal lib st symb p ts) = st"
  by (auto simp: generateSignal_def Let_def split: if_splits js_prop.splits sum.splits option.splits)

lemma generateSignal_open:
  "openTrade st symb = Some t \<Longrightarrow> \<exists>r. generateSignal lib st symb p ts = (st, Inr (HOLD r))"
  by (simp add: generateSignal_def js_get_own)

lemma demo_sell:
  "snd (generateSignal demoLib demoEngine demoSym 1999 tue1230) = Inr (SELL demoSignal demoTrade BEARISH)"
  by code_simp

lemma pushed_sell:
  "snd (generateSignal demoLib pushedEngine demoSym 1999 tue1230) = Inr (SELL demoSignal demoTrade BEARISH)"
  by code_simp

lemma demoOpen_eq:
  "demoOpen = demoEngine\<lparr>openTrade := (openTrade demoEngine)(demoSym \<mapsto> demoTrade),
                          lastSignalTs := (lastSignalTs demoEngine)(demoSym \<mapsto> tue1230)\<rparr>"
  using generateSignal_SELL [OF demo_sell] by (simp add: demoOpen_def)

lemma pushedOpen_eq:
  "pushedOpen = pushedEngine\<lparr>openTrade := (openTrade pushedEngine)(demoSym \<mapsto> demoTrade),
                          lastSignalTs := (lastSignalTs pushedEngine)(demoSym \<mapsto> tue1230)\<rparr>"
  using generateSignal_SELL [OF pushed_sell] by (simp add: pushedOpen_def)

lemma pushedEngine_bySymbol: "bySymbol (stats pushedEngine) demoSym = None"
  by code_simp

lemma stopAndTarget_touches:
  "js_ge (highOf stopAndTarget) (t_sl demoTrade) \<and> js_le (lowOf stopAndTarget) (t_tp demoTrade)"
  by code_simp

text \<open>
  Claim C2, at an engine fed by \<^verbatim>\<open>push1mCandle\<close> only. The trade of the scenario is
  open, the bar touches both its stop and its target; the stop is taken first and the
  trade is cleared, but \<^verbatim>\<open>_recordResult\<close> then reads the per-symbol record that only
  \<^verbatim>\<open>load1mCandles\<close> creates, and the call throws instead of returning the loss.
  Where the record exists the call returns the loss (\<open>resolveOpenTrade_stop_first\<close>).
\<close>

theorem resolve_throws_without_symbol_record:
  "openTrade pushedOpen demoSym = Some demoTrade
   \<and> js_ge (highOf stopAndTarget) (t_sl demoTrade)
   \<and> js_le (lowOf stopAndTarget) (t_tp demoTrade)
   \<and> snd (resolveOpenTrade pushedOpen demoSym stopAndTarget (tue1230 + 60000)) = Inl TypeError
   \<and> openTrade (fst (resolveOpenTrade pushedOpen demoSym stopAndTarget (tue1230 + 60000))) demoSym = None"
proof -
  have a: "openTrade pushedOpen demoSym = Some demoTrade"
    by (simp add: pushedOpen_eq)
  have b: "bySymbol (stats pushedOpen) demoSym = None"
    by (simp add: pushedOpen_eq pushedEngine_bySymbol)
  show ?thesis
    using a stopAndTarget_touches
      resolveOpenTrade_stop_throws [OF a conjunct1 [OF stopAndTarget_touches] b]
    by simp
qed

section \<open>At most one open trade per symbol\<close>

lemma openCount_le: "openCount st symb \<le> 1"
  by (simp add: openCount_def split: option.splits)

lemma exec_generate:
  "exec lib st (GenerateSignal s p ts) =
     (fst (generateSignal lib st s p ts), Signal (snd (generateSignal lib st s p ts)))"
  by (simp split: prod.splits)

lemma exec_resolve:
  "exec lib st (ResolveOpenTrade s k now) =
     (fst (resolveOpenTrade st s k now), Resolved (snd (resolveOpenTrade st s k now)))"
  by (simp split: prod.splits)

lemma run_Cons:
  "run lib st (x # xs) =
     (fst (run lib (fst (exec lib st x)) xs), snd (exec lib st x) # snd (run lib (fst (exec lib st x)) xs))"
  by (simp split: prod.splits)

lemma step_generate_count:
  "openCount st symb + (if sellAt symb (GenerateSignal s p ts, Signal (snd (generateSignal lib st s p ts))) = None then 0 else 1)
     = openCount (fst (generateSignal lib st s p ts)) symb"
proof (cases "snd (generateSignal lib st s p ts)")
  case (Inl e)
  then show ?thesis
    using generateSignal_throws [of lib st s p ts e] by simp
next
  case (Inr res)
  show ?thesis
  proof (cases res)
    case (HOLD r)
    with Inr show ?thesis
      using generateSignal_HOLD [of lib st s p ts r] by simp
  next
    case (SELL sg tr tn)
    with Inr show ?thesis
      using generateSignal_SELL [of lib st s p ts sg tr tn]
      by (auto simp: openCount_def)
  qed
qed

lemma step_resolve_count:
  "openCount st symb
     = openCount (fst (resolveOpenTrade st s k now)) symb
       + (if closedAt symb (ResolveOpenTrade s k now, Resolved (snd (resolveOpenTrade st s k now))) then 1 else 0)"
proof (cases "snd (resolveOpenTrade st s k now) = Inr None")
  case True
  then show ?thesis
    using resolveOpenTrade_still_open [of st s k now] by simp
next
  case False
  then show ?thesis
    using resolveOpenTrade_closes [of st s k now]
    by (auto simp: openCount_def split: option.splits)
qed

lemma sellTimes_Nil: "sellTimes symb [] [] = []"
  by (simp add: sellTimes_def List.map_filter_def)

lemma sellTimes_Cons:
  "sellTimes symb (x # xs) (r # rs) =
     (case sellAt symb (x, r) of None \<Rightarrow> sellTimes symb xs rs | Some ts \<Rightarrow> ts # sellTimes symb xs rs)"
  by (simp add: sellTimes_def List.map_filter_def split: option.splits)

lemma closeCount_Nil: "closeCount symb [] [] = 0"
  by (simp add: closeCount_def)

lemma closeCount_Cons:
  "closeCount symb (x # xs) (r # rs) = (if closedAt symb (x, r) then 1 else 0) + closeCount symb xs rs"
  by (simp add: closeCount_def)

lemma step_count:
  assumes "genOrResolve x"
  shows "openCount st symb + (case sellAt symb (x, snd (exec lib st x)) of None \<Rightarrow> 0 | Some ts \<Rightarrow> 1)
         = openCount (fst (exec lib st x)) symb + (if closedAt symb (x, snd (exec lib st x)) then 1 else 0)"
proof (cases x)
  case (GenerateSignal s p ts)
  then show ?thesis
    using step_generate_count [of st symb s p ts lib]
    by (simp add: exec_generate del: exec.simps split: option.splits if_splits)
next
  case (ResolveOpenTrade s k now)
  then show ?thesis
    using step_resolve_count [of st symb s k now]
    by (simp add: exec_resolve del: exec.simps)
qed (use assms in simp_all)

lemma run_count:
  "list_all genOrResolve ops \<Longrightarrow>
     openCount st symb + length (sellTimes symb ops (snd (run lib st ops)))
       = closeCount symb ops (snd (run lib st ops)) + openCount (fst (run lib st ops)) symb"
proof (induction ops arbitrary: st)
  case Nil
  then show ?case by (simp add: sellTimes_Nil closeCount_Nil)
next
  case (Cons x xs)
  have g: "genOrResolve x" and gs: "list_all genOrResolve xs"
    using Cons.prems by simp_all
  let ?st1 = "fst (exec lib st x)"
  have ih: "openCount ?st1 symb + length (sellTimes symb xs (snd (run lib ?st1 xs)))
       = closeCount symb xs (snd (run lib ?st1 xs)) + openCount (fst (run lib ?st1 xs)) symb"
    using Cons.IH [OF gs] .
  have st: "openCount st symb + (case sellAt symb (x, snd (exec lib st x)) of None \<Rightarrow> 0 | Some ts \<Rightarrow> 1)
         = openCount ?st1 symb + (if closedAt symb (x, snd (exec lib st x)) then 1 else 0)"
    using step_count [OF g] .
  show ?case
    using ih st
    by (simp add: run_Cons sellTimes_Cons closeCount_Cons del: run.simps exec.simps split: option.splits if_splits)
qed

text \<open>
  Claim C1. The entry \<open>openTrade st symb\<close> holds one trade or none. Over any sequence of
  \<^verbatim>\<open>generateSignal\<close> and \<^verbatim>\<open>resolveOpenTrade\<close> calls (on any symbols) that starts
  with no trade open for the symbol, the sells emitted for the symbol are as many as
  the trades closed for it, plus one exactly when a trade is open at the end: a new
  trade is never built before the previous one was closed. And \<^verbatim>\<open>generateSignal\<close> on
  an engine that has a trade open for the symbol returns a \<^verbatim>\<open>HOLD\<close> and changes
  nothing.
\<close>

theorem one_open_trade_per_symbol:
  "(list_all genOrResolve ops \<and> openTrade st symb = None \<longrightarrow>
      (case run lib st ops of
         (st', rs) \<Rightarrow>
           length (sellTimes symb ops rs) = closeCount symb ops rs + openCount st' symb
           \<and> openCount st' symb \<le> 1))
   \<and> (openTrade st2 symb = Some t \<longrightarrow> (\<exists>r. generateSignal lib st2 symb p ts = (st2, Inr (HOLD r))))"
proof (intro conjI impI)
  assume a: "list_all genOrResolve ops \<and> openTrade st symb = None"
  then have "openCount st symb = 0"
    by (simp add: openCount_def)
  with a run_count [of ops st symb lib] openCount_le [of "fst (run lib st ops)" symb]
  show "case run lib st ops of
         (st', rs) \<Rightarrow>
           length (sellTimes symb ops rs) = closeCount symb ops rs + openCount st' symb
           \<and> openCount st' symb \<le> 1"
    by (simp add: case_prod_beta)
next
  assume "openTrade st2 symb = Some t"
  then show "\<exists>r. generateSignal lib st2 symb p ts = (st2, Inr (HOLD r))"
    by (rule generateSignal_open)
qed

lemma demoOps_run:
  "sellTimes demoSym demoOps (snd (run demoLib demoEngine demoOps)) = [tue1230, tue1230 + 480000]
   \<and> closeCount demoSym demoOps (snd (run demoLib demoEngine demoOps)) = 1
   \<and> openCount (fst (run demoLib demoEngine demoOps)) demoSym = 1"
  by code_simp

lemma demoOps_only: "list_all genOrResolve demoOps"
  by (simp add: demoOps_def)

lemma demoEngine_no_trade: "openTrade demoEngine demoSym = None"
  by code_simp

lemma demoOpen_holds:
  "openTrade demoOpen demoSym = Some demoTrade
   \<and> snd (generateSignal demoLib demoOpen demoSym 1999 (tue1230 + 360000)) = Inr (HOLD (OpenTradeHeld demoTrade))"
  by code_simp

theorem one_open_trade_per_symbol_witness:
  "list_all genOrResolve demoOps \<and> openTrade demoEngine demoSym = None
   \<and> sellTimes demoSym demoOps (snd (run demoLib demoEngine demoOps)) = [tue1230, tue1230 + 480000]
   \<and> closeCount demoSym demoOps (snd (run demoLib demoEngine demoOps)) = 1
   \<and> openCount (fst (run demoLib demoEngine demoOps)) demoSym = 1
   \<and> openTrade demoOpen demoSym = Some demoTrade
   \<and> snd (generateSignal demoLib demoOpen demoSym 1999 (tue1230 + 360000)) = Inr (HOLD (OpenTradeHeld demoTrade))"
  using one_open_trade_per_symbol
          [of demoOps demoEngine demoSym demoLib demoOpen demoTrade 1999 "tue1230 + 360000"]
        demoOps_only demoEngine_no_trade demoOps_run demoOpen_holds
  by simp

section \<open>Statistics after an outcome\<close>











section \<open>Reloading the 1-minute history\<close>

text \<open>Every call other than \<^verbatim>\<open>load1mCandles\<close> and \<^verbatim>\<open>resolveOpenTrade\<close> for the
  symbol keeps its open trade, and so does a \<^verbatim>\<open>resolveOpenTrade\<close> that reports
  "still open".\<close>

lemma other_calls_keep_open_trade:
  assumes "openTrade st symb = Some t" and "notLoad1m symb x"
    and "\<forall>k now. x \<noteq> ResolveOpenTrade symb k now"
  shows "openTrade (fst (exec lib st x)) symb = Some t"
proof (cases x)
  case (GenerateSignal s p ts)
  show ?thesis
  proof (cases "snd (generateSignal lib st s p ts)")
    case (Inl e)
    with GenerateSignal assms(1) show ?thesis
      using generateSignal_throws [of lib st s p ts e]
      by (simp add: exec_generate del: exec.simps)
  next
    case (Inr res)
    show ?thesis
    proof (cases res)
      case (HOLD r)
      with Inr GenerateSignal assms(1) show ?thesis
        using generateSignal_HOLD [of lib st s p ts r]
        by (simp add: exec_generate del: exec.simps)
    next
      case (SELL sg tr tn)
      with Inr GenerateSignal assms(1) show ?thesis
        using generateSignal_SELL [of lib st s p ts sg tr tn]
        by (auto simp: exec_generate simp del: exec.simps)
    qed
  qed
next
  case (ResolveOpenTrade s k now)
  with assms(3) have "s \<noteq> symb" by auto
  with ResolveOpenTrade assms(1) show ?thesis
    using resolveOpenTrade_still_open [of st s k now] resolveOpenTrade_closes [of st s k now]
    by (cases "snd (resolveOpenTrade st s k now) = Inr None")
       (simp_all add: exec_resolve del: exec.simps)
next
  case (Load1mCandles s ks)
  with assms show ?thesis by (simp add: load1mCandles_def)
next
  case (Load5mCandles s ks)
  with assms show ?thesis by (simp add: load5mCandles_def)
next
  case (Load1hCandles s ks)
  with assms show ?thesis by (simp add: load1hCandles_def)
next
  case (Push1mCandle s k)
  with assms show ?thesis by (simp add: push1mCandle_def)
next
  case (Push5mCandle s k)
  with assms show ?thesis by (simp add: push5mCandle_def)
qed

lemma resolve_still_open_keeps_trade:
  "openTrade st symb = Some t \<Longrightarrow> snd (resolveOpenTrade st symb k now) = Inr None
     \<Longrightarrow> openTrade (fst (resolveOpenTrade st symb k now)) symb = Some t"
  using resolveOpenTrade_still_open [of st symb k now] by simp

text \<open>
  Claim C4, at the engine of the scenario with its trade open since 12:30.
  \<^verbatim>\<open>load1mCandles\<close> for the symbol clears the open trade and sets the time of the
  last signal back to 0, without an outcome and without a change to the statistics:
  the next \<^verbatim>\<open>resolveOpenTrade\<close> finds nothing to resolve although the bar touches
  the stop, and \<^verbatim>\<open>generateSignal\<close> sells again one minute after the first sell.
\<close>

theorem load1mCandles_drops_open_trade:
  "openTrade demoOpen demoSym = Some demoTrade
   \<and> lastSignalTs demoOpen demoSym = Some tue1230
   \<and> openTrade (load1mCandles demoOpen demoSym demo1m) demoSym = None
   \<and> lastSignalTs (load1mCandles demoOpen demoSym demo1m) demoSym = Some 0
   \<and> r_closed (getStats (load1mCandles demoOpen demoSym demo1m)) = 0
   \<and> expired (stats (load1mCandles demoOpen demoSym demo1m)) = 0
   \<and> snd (resolveOpenTrade (load1mCandles demoOpen demoSym demo1m) demoSym stopAndTarget (tue1230 + 60000))
       = Inr None
   \<and> snd (generateSignal demoLib (load1mCandles demoOpen demoSym demo1m) demoSym 1999 (tue1230 + 60000))
       = Inr (SELL demoSignal (makeTrade demoSym 1999 (tue1230 + 60000) demoSignal) BEARISH)"
  by code_simp

section \<open>Cool-down between sells\<close>

lemma lastSignalOr0_generate:
  "lastSignalOr0 (fst (generateSignal lib st s p ts)) symb
     = (case sellAt symb (GenerateSignal s p ts, Signal (snd (generateSignal lib st s p ts))) of
          None \<Rightarrow> lastSignalOr0 st symb | Some t \<Rightarrow> t)
   \<and> (\<forall>t. sellAt symb (GenerateSignal s p ts, Signal (snd (generateSignal lib st s p ts))) = Some t
          \<longrightarrow> cooldownMs \<le> t - lastSignalOr0 st symb)"
proof (cases "snd (generateSignal lib st s p ts)")
  case (Inl e)
  then show ?thesis
    using generateSignal_throws [of lib st s p ts e] by simp
next
  case (Inr res)
  show ?thesis
  proof (cases res)
    case (HOLD r)
    with Inr show ?thesis
      using generateSignal_HOLD [of lib st s p ts r] by simp
  next
    case (SELL sg tr tn)
    with Inr show ?thesis
      using generateSignal_SELL [of lib st s p ts sg tr tn]
      by (auto simp: lastSignalOr0_def)
  qed
qed

lemma lastSignalOr0_exec:
  assumes "notLoad1m symb x"
  shows "lastSignalOr0 (fst (exec lib st x)) symb
     = (case sellAt symb (x, snd (exec lib st x)) of None \<Rightarrow> lastSignalOr0 st symb | Some t \<Rightarrow> t)
   \<and> (\<forall>t. sellAt symb (x, snd (exec lib st x)) = Some t \<longrightarrow> cooldownMs \<le> t - lastSignalOr0 st symb)"
proof (cases x)
  case (GenerateSignal s p ts)
  then show ?thesis
    using lastSignalOr0_generate [of lib st s p ts symb]
    by (simp add: exec_generate del: exec.simps)
next
  case (ResolveOpenTrade s k now)
  then show ?thesis
    using resolveOpenTrade_frame [of st s k now]
    by (simp add: exec_resolve lastSignalOr0_def del: exec.simps)
next
  case (Load1mCandles s ks)
  with assms show ?thesis
    by (simp add: load1mCandles_def lastSignalOr0_def)
next
  case (Load5mCandles s ks)
  then show ?thesis by (simp add: load5mCandles_def lastSignalOr0_def)
next
  case (Load1hCandles s ks)
  then show ?thesis by (simp add: load1hCandles_def lastSignalOr0_def)
next
  case (Push1mCandle s k)
  then show ?thesis by (simp add: push1mCandle_def lastSignalOr0_def)
next
  case (Push5mCandle s k)
  then show ?thesis by (simp add: push5mCandle_def lastSignalOr0_def)
qed

lemma run_spacing:
  "list_all (notLoad1m symb) ops \<Longrightarrow>
     successively (\<lambda>a b. cooldownMs \<le> b - a)
       (lastSignalOr0 st symb # sellTimes symb ops (snd (run lib st ops)))"
proof (induction ops arbitrary: st)
  case Nil
  then show ?case by (simp add: sellTimes_Nil)
next
  case (Cons x xs)
  have g: "notLoad1m symb x" and gs: "list_all (notLoad1m symb) xs"
    using Cons.prems by simp_all
  let ?st1 = "fst (exec lib st x)"
  have ih: "successively (\<lambda>a b. cooldownMs \<le> b - a)
       (lastSignalOr0 ?st1 symb # sellTimes symb xs (snd (run lib ?st1 xs)))"
    using Cons.IH [OF gs] .
  show ?case
  proof (cases "sellAt symb (x, snd (exec lib st x))")
    case None
    then show ?thesis
      using ih lastSignalOr0_exec [OF g, of lib st]
      by (simp add: run_Cons sellTimes_Cons del: run.simps exec.simps)
  next
    case (Some t)
    then show ?thesis
      using ih lastSignalOr0_exec [OF g, of lib st]
      by (simp add: run_Cons sellTimes_Cons del: run.simps exec.simps)
  qed
qed

lemma successively_tail: "successively P (x # xs) \<Longrightarrow> successively P xs"
  by (cases xs) simp_all

lemma generateSignal_cooling:
  assumes "isScalpSession ts" and "lastSignalTs st symb = Some v" and "ts - v < cooldownMs"
  shows "generateSignal lib st symb p ts =
           (st, Inr (HOLD (CooldownWait (Some \<lceil>real_of_int (cooldownMs - (ts - v)) / 60000\<rceil>))))"
  using assms by (simp add: generateSignal_def coolingDown_def js_get_own lastSignalOr0_def waitMin_def)

lemma cooldownMs_value: "cooldownMs = 300000"
  by (simp add: cooldownMs_def COOLDOWN_def)

text \<open>
  Claim C5, as amended. Over any sequence of engine calls that does not reload the
  1-minute history of the symbol, the timestamps of two consecutive sells for the
  symbol are at least 300000 ms (5 minutes) apart. And a request inside the session
  window made less than 5 minutes after the last signal of the symbol returns a
  \<^verbatim>\<open>HOLD\<close> that reports the remaining minutes, rounded up, and changes nothing.
\<close>

theorem cooldown_between_sells:
  "(list_all (notLoad1m symb) ops \<longrightarrow>
      successively (\<lambda>a b. 300000 \<le> b - a) (sellTimes symb ops (snd (run lib st ops))))
   \<and> (isScalpSession ts \<and> lastSignalTs st2 symb = Some v \<and> ts - v < 300000 \<longrightarrow>
        generateSignal lib st2 symb p ts =
          (st2, Inr (HOLD (CooldownWait (Some \<lceil>real_of_int (300000 - (ts - v)) / 60000\<rceil>)))))"
  using run_spacing [of symb ops st lib, THEN successively_tail]
    generateSignal_cooling [of ts st2 symb v lib p]
  by (simp add: cooldownMs_value)

lemma demoOps_no_load: "list_all (notLoad1m demoSym) demoOps"
  by (simp add: demoOps_def)

lemma demoOpen_cooling:
  "isScalpSession (tue1230 + 120000) \<and> lastSignalTs demoOpen demoSym = Some tue1230
   \<and> (tue1230 + 120000) - tue1230 < 300000
   \<and> snd (generateSignal demoLib demoOpen demoSym 1999 (tue1230 + 120000)) = Inr (HOLD (CooldownWait (Some 3)))"
  by code_simp

theorem cooldown_between_sells_witness:
  "list_all (notLoad1m demoSym) demoOps
   \<and> sellTimes demoSym demoOps (snd (run demoLib demoEngine demoOps)) = [tue1230, tue1230 + 480000]
   \<and> successively (\<lambda>a b. 300000 \<le> b - a) [tue1230, tue1230 + 480000]
   \<and> isScalpSession (tue1230 + 120000) \<and> lastSignalTs demoOpen demoSym = Some tue1230
   \<and> (tue1230 + 120000) - tue1230 < 300000
   \<and> snd (generateSignal demoLib demoOpen demoSym 1999 (tue1230 + 120000)) = Inr (HOLD (CooldownWait (Some 3)))"
  using cooldown_between_sells
          [where symb = demoSym and ops = demoOps and lib = demoLib and st = demoEngine
             and ts = "tue1230 + 120000" and ?st2.0 = demoOpen and v = tue1230 and p = 1999]
        demoOps_no_load demoOps_run demoOpen_cooling
  by simp

text \<open>
  Claim C5 as stated fails outside the session window, which is tested before the
  cool-down: three minutes after a sell at 12:58 the request of 13:01 is held for
  being outside the session, and no remaining wait is reported.
\<close>

theorem hold_outside_session_hides_wait:
  "snd (generateSignal demoLib demoEngine demoSym 1999 tue1258)
     = Inr (SELL demoSignal (makeTrade demoSym 1999 tue1258 demoSignal) BEARISH)
   \<and> lastSignalTs (fst (generateSignal demoLib demoEngine demoSym 1999 tue1258)) demoSym = Some tue1258
   \<and> (tue1258 + 180000) - tue1258 < cooldownMs
   \<and> snd (generateSignal demoLib (fst (generateSignal demoLib demoEngine demoSym 1999 tue1258))
             demoSym 1999 (tue1258 + 180000))
       = Inr (HOLD (OutsideSession (Some 13)))"
  by code_simp

section \<open>What an emitted setup says about the series\<close>


lemma priceLevels_Some:
  assumes "priceLevels lib sn ph sc sp mc mp = Some sg"
  shows "s_price sg = price sn \<and> s_atr sg = atrVal sn \<and> s_pullbackHigh sg = ph
         \<and> s_ema21 sg = e21 sn
         \<and> s_sl sg = addD lib (price sn) (mulD lib (atrVal sn) (Some ATR_MUL))
         \<and> s_risk sg = js_abs (subD lib (price sn) (s_sl sg))
         \<and> s_tp sg = subD lib (price sn) (mulD lib (s_risk sg) (Some (roundD lib RR)))
         \<and> \<not> js_le (s_risk sg) (Some 0)
         \<and> \<not> js_gt (s_risk sg) (mulD lib (atrVal sn) (Some 3))
         \<and> MIN_CONF \<le> s_confidence sg \<and> s_confidence sg \<le> 95"
  using assms
  by (auto simp: priceLevels_def Let_def split: if_splits)

lemma sellGates_Some:
  assumes "sellGates lib c1 closes ema8 ema21 rsi atr stoch macd = Some sg"
  shows "truthy (atrVal (takeSnapshot closes ema8 ema21 rsi atr stoch macd))
         \<and> \<not> js_lt (atrVal (takeSnapshot closes ema8 ema21 rsi atr stoch macd)) (Some (3 / 10))
         \<and> \<not> pullbackRejects (takeSnapshot closes ema8 ema21 rsi atr stoch macd) (pullbackHighOf c1)
         \<and> (\<exists>sc sp mc mp.
               priceLevels lib (takeSnapshot closes ema8 ema21 rsi atr stoch macd)
                 (pullbackHighOf c1) sc sp mc mp = Some sg)"
proof -
  let ?sn = "takeSnapshot closes ema8 ema21 rsi atr stoch macd"
  from assms have a: "truthy (atrVal ?sn)" and b: "\<not> js_lt (atrVal ?sn) (Some (3 / 10))"
    and c: "\<not> pullbackRejects ?sn (pullbackHighOf c1)"
    by (simp_all add: sellGates_def Let_def split: if_splits)
  from assms obtain sc sp mc
    where "priceLevels lib ?sn (pullbackHighOf c1) sc sp mc (macdPrev ?sn) = Some sg"
    by (auto simp: sellGates_def Let_def split: if_splits option.splits)
  with a b c show ?thesis
    by blast
qed

lemma getSellSignal_Some:
  assumes "getSellSignal lib st symb = Inr (Some sg)"
  shows "\<exists>c1 sn sc sp mc mp.
           candles1m st symb = Some c1 \<and> 30 \<le> length c1
           \<and> truthy (atrVal sn) \<and> \<not> js_lt (atrVal sn) (Some (3 / 10))
           \<and> \<not> pullbackRejects sn (pullbackHighOf c1)
           \<and> priceLevels lib sn (pullbackHighOf c1) sc sp mc mp = Some sg"
proof -
  from assms obtain c1 where c: "candles1m st symb = Some c1" and l: "30 \<le> length c1"
    and t: "getSellSignal_try lib c1 = Inr (Some sg)"
    by (auto simp: getSellSignal_def js_get_def split: option.splits if_splits sum.splits)
  from t obtain closes ema8 ema21 rsi atr stoch macd
    where "sellGates lib c1 closes ema8 ema21 rsi atr stoch macd = Some sg"
    by (auto simp: getSellSignal_try_def Let_def bind_try_def split: sum.splits)
  from sellGates_Some [OF this] c l show ?thesis
    by blast
qed


section \<open>Pull-back geometry\<close>






section \<open>Price levels of a trade\<close>

lemma atr_positive:
  "truthy a \<Longrightarrow> \<not> js_lt a (Some (3 / 10)) \<Longrightarrow> \<exists>x. a = Some x \<and> 0 < x"
  by (cases a) (simp_all add: truthy_def js_lt_def)

text \<open>
  Claim C3, as amended. A trade built by \<^verbatim>\<open>generateSignal\<close> from a setup whose price
  (the last 1-minute close) is a number has its stop, risk and target from that setup,
  computed in the host's double arithmetic: the stop is price + ATR \<open>\<times>\<close> 1.0, the risk
  is |price - stop|, strictly positive and at most ATR \<open>\<times>\<close> 3, and the target is
  price - risk \<open>\<times>\<close> 1.8, each rounded as the host rounds. With a rounding that is
  monotone and keeps 0 and the price, the stop is above the setup price and the target
  is not above it. The risk need not equal the ATR. The entry price is the price the
  caller passed, whatever it is: stop > entry > target holds exactly when that price
  lies strictly between target and stop.
\<close>

theorem trade_levels_from_setup:
  assumes "snd (generateSignal lib st symb p ts) = Inr (SELL sg tr tn)" and "s_price sg = Some px"
    and "\<forall>x y. x \<le> y \<longrightarrow> roundD lib x \<le> roundD lib y"
    and "roundD lib 0 = 0" and "roundD lib px = px"
  shows "\<exists>a sl r tp. s_atr sg = Some a \<and> 0 < a
           \<and> t_sl tr = Some sl \<and> sl = roundD lib (px + roundD lib (a * ATR_MUL))
           \<and> t_risk tr = Some r \<and> r = \<bar>roundD lib (px - sl)\<bar> \<and> 0 < r \<and> r \<le> roundD lib (a * 3)
           \<and> t_tp tr = Some tp \<and> tp = roundD lib (px - roundD lib (r * roundD lib RR))
           \<and> px < sl \<and> tp \<le> px
           \<and> t_entryPrice tr = p
           \<and> ((js_gt (t_sl tr) (Some (t_entryPrice tr)) \<and> js_gt (Some (t_entryPrice tr)) (t_tp tr))
                = (tp < p \<and> p < sl))"
proof -
  have mono: "\<And>x y. x \<le> y \<Longrightarrow> roundD lib x \<le> roundD lib y"
    using assms(3) by blast
  from generateSignal_SELL [OF assms(1)]
  have g: "getSellSignal lib st symb = Inr (Some sg)" and tr: "tr = makeTrade symb p ts sg"
    by simp_all
  from getSellSignal_Some [OF g]
  obtain sn ph sc sp mc mp where t: "truthy (atrVal sn)" and f: "\<not> js_lt (atrVal sn) (Some (3 / 10))"
    and pl: "priceLevels lib sn ph sc sp mc mp = Some sg"
    by blast
  from atr_positive [OF t f] obtain a where a: "atrVal sn = Some a" "0 < a"
    by blast
  from priceLevels_Some [OF pl] assms(2) have pr: "price sn = Some px"
    by simp
  define sl where "sl = roundD lib (px + roundD lib (a * ATR_MUL))"
  define r where "r = \<bar>roundD lib (px - sl)\<bar>"
  define tp where "tp = roundD lib (px - roundD lib (r * roundD lib RR))"
  from priceLevels_Some [OF pl] pr a(1)
  have v: "s_atr sg = Some a" "s_sl sg = Some sl" "s_risk sg = Some r" "s_tp sg = Some tp"
    by (simp_all add: sl_def r_def tp_def addD_def subD_def mulD_def js_add_def js_mul_def
        js_sub_def js_abs_def)
  from priceLevels_Some [OF pl]
  have gd: "\<not> js_le (s_risk sg) (Some 0)" "\<not> js_gt (s_risk sg) (mulD lib (atrVal sn) (Some 3))"
    by blast+
  from gd v(3) a(1) have rp: "0 < r" and rb: "r \<le> roundD lib (a * 3)"
    by (simp_all add: js_le_def js_gt_def js_lt_def mulD_def js_mul_def)
  have "0 \<le> roundD lib (a * ATR_MUL)"
    using mono [of 0 "a * ATR_MUL"] a(2) assms(4) by (simp add: ATR_MUL_def)
  then have "px \<le> px + roundD lib (a * ATR_MUL)"
    by simp
  from mono [OF this] assms(5) have le: "px \<le> sl"
    by (simp add: sl_def)
  have "px \<noteq> sl"
  proof
    assume "px = sl"
    then have "r = 0" using assms(4) by (simp add: r_def)
    with rp show False by simp
  qed
  with le have gt: "px < sl" by simp
  have "0 \<le> roundD lib RR"
    using mono [of 0 RR] assms(4) by (simp add: RR_def)
  with rp have "0 \<le> r * roundD lib RR"
    by simp
  from mono [OF this] assms(4) have "0 \<le> roundD lib (r * roundD lib RR)"
    by simp
  then have "px - roundD lib (r * roundD lib RR) \<le> px"
    by simp
  from mono [OF this] assms(5) have tl: "tp \<le> px"
    by (simp add: tp_def)
  from v tr have w: "t_sl tr = Some sl" "t_risk tr = Some r" "t_tp tr = Some tp" "t_entryPrice tr = p"
    by (simp_all add: makeTrade_def)
  have eq: "(js_gt (t_sl tr) (Some (t_entryPrice tr)) \<and> js_gt (Some (t_entryPrice tr)) (t_tp tr))
                = (tp < p \<and> p < sl)"
    using w by (auto simp: js_gt_def js_lt_def)
  show ?thesis
    using v(1) a(2) w rp rb gt tl eq sl_def r_def tp_def
    by blast
qed

theorem trade_levels_from_setup_witness:
  "snd (generateSignal demoLib demoEngine demoSym 1999 tue1230) = Inr (SELL demoSignal demoTrade BEARISH)
   \<and> s_price demoSignal = Some 1999 \<and> roundD demoLib 0 = 0 \<and> roundD demoLib 1999 = 1999
   \<and> s_atr demoSignal = Some 1
   \<and> t_sl demoTrade = Some 2000 \<and> t_risk demoTrade = Some 1
   \<and> t_entryPrice demoTrade = 1999"
proof -
  have a: "s_price demoSignal = Some 1999"
    by (simp add: demoSignal_def)
  have m: "\<forall>x y. x \<le> y \<longrightarrow> roundD demoLib x \<le> roundD demoLib y"
    and z: "roundD demoLib 0 = 0" and k: "roundD demoLib 1999 = 1999"
    by (simp_all add: demoLib_def)
  have b: "s_atr demoSignal = Some 1 \<and> t_sl demoTrade = Some 2000
      \<and> t_risk demoTrade = Some 1 \<and> t_entryPrice demoTrade = 1999"
    by (simp add: demoSignal_def demoTrade_def makeTrade_def)
  from trade_levels_from_setup [OF demo_sell a m z k] demo_sell a z k b show ?thesis
    by simp
qed

text \<open>
  Claim C3 as stated fails for a caller-supplied price of 2005: the setup is emitted as
  before, the trade has entry 2005 above its stop of 2000, and its risk of 1 is not
  stop minus entry.
\<close>

theorem entry_price_above_stop:
  "snd (generateSignal demoLib demoEngine demoSym 2005 tue1230)
     = Inr (SELL demoSignal (makeTrade demoSym 2005 tue1230 demoSignal) BEARISH)
   \<and> t_entryPrice (makeTrade demoSym 2005 tue1230 demoSignal) = 2005
   \<and> t_sl (makeTrade demoSym 2005 tue1230 demoSignal) = Some 2000
   \<and> \<not> js_gt (t_sl (makeTrade demoSym 2005 tue1230 demoSignal))
             (Some (t_entryPrice (makeTrade demoSym 2005 tue1230 demoSignal)))
   \<and> t_risk (makeTrade demoSym 2005 tue1230 demoSignal) = Some 1"
  by code_simp

end
